theory Spec2Isabelle
  imports Main "HOL-Library.Word"
begin

unbundle bit_operations_syntax

section \<open>A mapper of object graphs\<close>

text \<open>
  The repository is an object mapper: a registry keeps, for an ordered pair of classes, the
  rules that fill each property of a destination object from a source object, and the
  mapper runs them. Its core is the class \<^verbatim>\<open>AutoMapperBase\<close> of \<^verbatim>\<open>src/base.ts\<close>, which this
  theory follows function by function: a method that reads or writes the registry takes the
  state and returns it, a \<^verbatim>\<open>throw\<close> is the left summand of the result, and the functions that
  \<^verbatim>\<open>base.ts\<close> imports from files outside the sources are the fields of an environment.
\<close>

section \<open>Data model\<close>

text \<open>
  A \<^verbatim>\<open>Constructible\<close> is a class (a constructor function object). Two classes are the same
  key of the \<^verbatim>\<open>WeakMap\<close> only when they are the same object: \<open>ctor_ref\<close> stands for the
  object's identity, so two classes with the same name and the same source text but different
  references are different keys. \<open>ctor_toString\<close> is what \<^verbatim>\<open>source.toString()\<close> returns
  (the text of the definition), \<open>ctor_proto\<close> the class it extends.
\<close>

datatype Constructible =
  Constructible (ctor_ref: nat) (ctor_name: string) (ctor_toString: string)
    (ctor_proto: "Constructible option")

text \<open>
  JavaScript values as far as the mapper inspects them. Numbers are integers here and a date
  is its time value; an object carries its class and its own properties in insertion order.
  Strings are lists of 8-bit characters, so \<^verbatim>\<open>charCodeAt\<close> is the character's code
  (source texts within Latin-1).
\<close>

datatype Value =
    Undefined
  | Null
  | Bool bool
  | Num int
  | Str string
  | DateV int
  | Arr "Value list"
  | Obj Constructible "(string \<times> Value) list"

text \<open>The errors thrown: \<^verbatim>\<open>new Error(message)\<close> of the source, a \<^verbatim>\<open>TypeError\<close> of the
  host (a call of \<^verbatim>\<open>undefined\<close>, a property of \<^verbatim>\<open>undefined\<close>), and the exhaustion of the
  recursion budget of the model (the host's call stack).\<close>

datatype Error = Error string | TypeError string | OutOfFuel

record NamingConvention =
  splitPath :: "string \<Rightarrow> string list"
  joinPath :: "string list \<Rightarrow> string"

datatype TransformationType =
  Ignore | MapFrom | Condition | FromValue | MapWith | ConvertUsing | NullSubstituion
  | MapInitialize

text \<open>\<^verbatim>\<open>preCondition\<close> and \<^verbatim>\<open>condition\<close>: a predicate over the source object and a
  default value, \<open>Undefined\<close> when none was configured.\<close>

record ConditionOptions =
  predicate :: "Value \<Rightarrow> bool"
  defaultValue :: Value

text \<open>\<^verbatim>\<open>mapFrom\<close> is a selector function or a resolver object; the resolver is called with
  the source and the destination (its third argument, the transformation itself, is left out
  of the model).\<close>

datatype MapFromCallback =
    Selector "Value \<Rightarrow> Value"
  | ResolverObj "Value \<Rightarrow> Value \<Rightarrow> Value"

record ConvertUsingTransformOptions =
  converter :: "Value \<Rightarrow> Value"
  cu_value :: "Value \<Rightarrow> Value"

record MapWithTransformOptions =
  mw_destination :: Constructible
  mw_fromValue :: "Value \<Rightarrow> Value"

record TransformationTypeInfo =
  ttype :: TransformationType
  preCondition :: "ConditionOptions option"

record MappingTransformation =
  transformationType :: TransformationTypeInfo
  mapFrom :: "MapFromCallback option"
  fromValue :: Value
  convertUsing :: "ConvertUsingTransformOptions option"
  mapWith :: "MapWithTransformOptions option"
  condition :: "ConditionOptions option"
  nullSubstitution :: Value

record MappingProperty =
  destinationMemberPath :: string
  sourceMemberPath :: "string option"
  transformation :: MappingTransformation

text \<open>A hook receives the source and the destination and works on the destination; the model
  returns the destination it leaves (the shallow copy of the mapping it also receives is left
  out).\<close>

type_synonym MapAction = "Value \<Rightarrow> Value \<Rightarrow> Value"

record MapActionOptions =
  beforeMap :: "MapAction option"
  afterMap :: "MapAction option"

record CreateMapOptions =
  opt_sourceMemberNamingConvention :: "NamingConvention option"
  opt_destinationMemberNamingConvention :: "NamingConvention option"

text \<open>\<open>properties\<close> is a \<^verbatim>\<open>Map\<close>: keys in insertion order.\<close>

record Mapping =
  source :: Constructible
  sourceKey :: string
  destination :: Constructible
  destinationKey :: string
  properties :: "(string \<times> MappingProperty) list"
  sourceMemberNamingConvention :: "NamingConvention option"
  destinationMemberNamingConvention :: "NamingConvention option"
  beforeMapAction :: "MapAction option"
  afterMapAction :: "MapAction option"
  baseSource :: "Constructible option"
  baseDestination :: "Constructible option"

text \<open>
  Mapping objects are shared by reference between the registry and the callers, and a map
  call may write to one, so they live in a store: a \<open>MappingRef\<close> is an index into \<open>heap\<close>.
  \<open>mappings\<close> is \<^verbatim>\<open>_mappings\<close> (string keys in insertion order, which is the order of
  \<^verbatim>\<open>Object.entries\<close> for keys that are not array indices), \<open>classNameMap\<close> is
  \<^verbatim>\<open>_classNameMap\<close>, and \<open>log\<close> records what the run does to the outside: the warnings
  printed and the hooks called, those of a nested call of \<^verbatim>\<open>_map\<close> as one \<open>Nested\<close>
  event of the caller. A key of \<^verbatim>\<open>_mappings\<close> is taken not to be the name of a member
  of \<^verbatim>\<open>Object.prototype\<close>, which a lookup in a plain object would find as well.
\<close>

type_synonym MappingRef = nat

datatype HookOrigin = PerCall | Configured

datatype Event =
    WarnNotExist string
  | WarnPrimitive string string Value
  | BeforeMapCalled HookOrigin
  | AfterMapCalled HookOrigin
  | ArrayBeforeMapCalled
  | ArrayAfterMapCalled
  | Nested "Event list"

record State =
  mappings :: "(string \<times> MappingRef) list"
  classNameMap :: "Constructible \<rightharpoonup> string"
  heap :: "Mapping list"
  log :: "Event list"

text \<open>
  What \<^verbatim>\<open>base.ts\<close> imports from \<^verbatim>\<open>./utils\<close>, \<^verbatim>\<open>./metadata-explorer\<close>,
  \<^verbatim>\<open>./constants\<close> and \<^verbatim>\<open>lodash.set\<close>, and the \<^verbatim>\<open>Date\<close> constructor. None of these
  files is among the sources, so the functions of \<^verbatim>\<open>base.ts\<close> take them as a parameter.
\<close>

record Env =
  instantiate :: "Constructible \<Rightarrow> Value option \<Rightarrow> Value"
  lodash_set :: "Value \<Rightarrow> string \<Rightarrow> Value \<Rightarrow> Value"
  newDate :: "Value \<Rightarrow> Value"
  defaultMapActionOptions :: MapActionOptions
  assertMappingErrors :: "Value \<Rightarrow> string list \<Rightarrow> Error option"
  get :: "Value \<Rightarrow> Value \<Rightarrow> string \<Rightarrow> Value"
  getMappingKey :: "string \<Rightarrow> string \<Rightarrow> string"
  getProto :: "Constructible \<Rightarrow> Constructible option"
  getSourcePropertyKey ::
    "NamingConvention option \<Rightarrow> NamingConvention option \<Rightarrow> string \<Rightarrow> string"
  inheritBaseMapping :: "Mapping \<Rightarrow> Mapping \<Rightarrow> Mapping"
  initializeReversedMappingProperties :: "Mapping \<Rightarrow> (string \<times> MappingProperty) list"
  isClass :: "Value \<Rightarrow> bool"
  isDate :: "Value \<Rightarrow> bool"
  isEmpty :: "Value \<Rightarrow> bool"
  isObjectLike :: "Value \<Rightarrow> bool"
  isResolver :: "MapFromCallback \<Rightarrow> bool"
  setMappingPropertyForMapFromMember ::
    "string \<Rightarrow> string \<Rightarrow> Mapping \<Rightarrow> (Value \<Rightarrow> Value) \<Rightarrow> Mapping"
  wrapMappingKey :: "string \<Rightarrow> string"

section \<open>Host operations\<close>

text \<open>The constructor starts with no mapping and no cached hash; \<^verbatim>\<open>_dispose\<close> goes back
  there (the store of mapping objects and the log are not the registry's).\<close>

definition init :: State where
  "init = \<lparr>mappings = [], classNameMap = Map.empty, heap = [], log = []\<rparr>"

definition dispose :: "State \<Rightarrow> State" where
  "dispose st = st\<lparr>mappings := [], classNameMap := Map.empty\<rparr>"

definition truthy :: "Value \<Rightarrow> bool" where
  "truthy v =
     (case v of
        Undefined \<Rightarrow> False
      | Null \<Rightarrow> False
      | Bool b \<Rightarrow> b
      | Num n \<Rightarrow> n \<noteq> 0
      | Str s \<Rightarrow> s \<noteq> []
      | _ \<Rightarrow> True)"

text \<open>\<^verbatim>\<open>a || b\<close>\<close>

definition js_or :: "Value \<Rightarrow> Value \<Rightarrow> Value" where
  "js_or a b = (if truthy a then a else b)"

definition isWhiteSpace :: "char \<Rightarrow> bool" where
  "isWhiteSpace c = ((of_char c :: nat) \<in> {9, 10, 11, 12, 13, 32, 160})"

definition trim :: "string \<Rightarrow> string" where
  "trim s = rev (dropWhile isWhiteSpace (rev (dropWhile isWhiteSpace s)))"

fun showNat :: "nat \<Rightarrow> string" where
  "showNat n =
     (if n < 10 then [''0123456789'' ! n]
      else showNat (n div 10) @ [''0123456789'' ! (n mod 10)])"

declare showNat.simps [simp del]

text \<open>\<^verbatim>\<open>hash.toString()\<close> of a 32-bit signed integer.\<close>

definition int32_toString :: "32 word \<Rightarrow> string" where
  "int32_toString h =
     (if sint h < 0 then CHR ''-'' # showNat (nat (- sint h)) else showNat (nat (sint h)))"

text \<open>\<^verbatim>\<open>key.includes(sub)\<close>\<close>

fun includes_str :: "string \<Rightarrow> string \<Rightarrow> bool" where
  "includes_str [] sub = (sub = [])"
| "includes_str (c # cs) sub = (take (length sub) (c # cs) = sub \<or> includes_str cs sub)"

text \<open>Lookup and assignment of a string-keyed object: an assignment to a present key keeps
  its place, a new key goes last.\<close>

fun assign :: "(string \<times> 'a) list \<Rightarrow> string \<Rightarrow> 'a \<Rightarrow> (string \<times> 'a) list" where
  "assign [] k v = [(k, v)]"
| "assign ((k', v') # kvs) k v =
     (if k' = k then (k, v) # kvs else (k', v') # assign kvs k v)"

definition heapGet :: "State \<Rightarrow> MappingRef \<Rightarrow> Mapping option" where
  "heapGet st r = (if r < length (heap st) then Some (heap st ! r) else None)"

section \<open>The registry\<close>

text \<open>The loop of \<^verbatim>\<open>_getHash\<close>:
  \<^verbatim>\<open>hash = (hash << 5) - hash + c; hash = hash & hash\<close>, on 32-bit integers.\<close>

definition hashStep :: "32 word \<Rightarrow> char \<Rightarrow> 32 word" where
  "hashStep hash c = (let h = push_bit 5 hash - hash + of_char c in h AND h)"

definition hashCode :: "string \<Rightarrow> 32 word" where
  "hashCode stringify = foldl hashStep 0 stringify"

definition getHash :: "Env \<Rightarrow> Constructible \<Rightarrow> bool \<Rightarrow> State \<Rightarrow> string \<times> State" where
  "getHash env src shouldCreate st =
     (case classNameMap st src of
        Some h \<Rightarrow> (h, st)
      | None \<Rightarrow>
          if shouldCreate then
            (let stringify = trim (wrapMappingKey env (ctor_toString src));
                 hash = hashCode stringify
             in (int32_toString hash,
                 st\<lparr>classNameMap := (classNameMap st)(src \<mapsto> int32_toString hash)\<rparr>))
          else
            (case getProto env src of
               None \<Rightarrow> ('''', st)
             | Some p \<Rightarrow>
                 (case classNameMap st p of
                    Some h \<Rightarrow> (h, st)
                  | None \<Rightarrow> ('''', st))))"

definition getHashedNames ::
  "Env \<Rightarrow> Constructible \<Rightarrow> Constructible \<Rightarrow> bool \<Rightarrow> State \<Rightarrow> (string \<times> string) \<times> State" where
  "getHashedNames env src dest shouldCreate st =
     (let (s, st1) = getHash env src shouldCreate st;
          (d, st2) = getHash env dest shouldCreate st1
      in ((s, d), st2))"

definition alreadyExisted :: "Constructible \<Rightarrow> Constructible \<Rightarrow> Error" where
  "alreadyExisted src dest =
     Error (''Mapping for source '' @ ctor_name src @ '' and destination '' @ ctor_name dest
            @ '' is already existed'')"

definition hasMapping ::
  "Env \<Rightarrow> Constructible \<Rightarrow> Constructible \<Rightarrow> string option \<Rightarrow> string option \<Rightarrow> State
   \<Rightarrow> (Error + string) \<times> State" where
  "hasMapping env src dest sourceKey' destinationKey' st =
     (let fromHashes =
            (let ((srcKey, destKey), st') = getHashedNames env src dest True st
             in (getMappingKey env srcKey destKey, st'));
          (key, st1) =
            (case (sourceKey', destinationKey') of
               (Some s, Some d) \<Rightarrow>
                 if s \<noteq> [] \<and> d \<noteq> [] then (getMappingKey env s d, st) else fromHashes
             | _ \<Rightarrow> fromHashes)
      in (case map_of (mappings st1) key of
            Some m \<Rightarrow> (Inl (alreadyExisted src dest), st1)
          | None \<Rightarrow> (Inr key, st1)))"

definition createMappingObject ::
  "Env \<Rightarrow> Constructible \<Rightarrow> Constructible \<Rightarrow> CreateMapOptions \<Rightarrow> State
   \<Rightarrow> (Error + MappingRef) \<times> State" where
  "createMappingObject env src dest options st =
     (let ((sourceKey', destinationKey'), st1) = getHashedNames env src dest True st
      in (case hasMapping env src dest (Some sourceKey') (Some destinationKey') st1 of
            (Inl e, st2) \<Rightarrow> (Inl e, st2)
          | (Inr key, st2) \<Rightarrow>
              (let mapping =
                     \<lparr>source = src,
                      sourceKey = ctor_name src,
                      destination = dest,
                      destinationKey = ctor_name dest,
                      properties = [],
                      sourceMemberNamingConvention = opt_sourceMemberNamingConvention options,
                      destinationMemberNamingConvention =
                        opt_destinationMemberNamingConvention options,
                      beforeMapAction = None,
                      afterMapAction = None,
                      baseSource = None,
                      baseDestination = None\<rparr>;
                   r = length (heap st2)
               in (Inr r,
                   st2\<lparr>heap := heap st2 @ [mapping],
                       mappings := assign (mappings st2) key r\<rparr>))))"

definition mappingNotFound2 :: Error where
  "mappingNotFound2 =
     Error (''Mapping not found for source '' @ ''Function'' @ '' and destination ''
            @ ''Function'')"

text \<open>\<^verbatim>\<open>_getMappingForDestination\<close>: the lookup that creates no hash; with \<open>isInherit\<close> it
  returns \<^verbatim>\<open>undefined\<close> (\<open>None\<close>) instead of throwing. Its message names
  \<^verbatim>\<open>sourceObj.constructor.name\<close> of a class, which is \<^verbatim>\<open>Function\<close>.\<close>

definition getMappingForDestination ::
  "Env \<Rightarrow> Constructible \<Rightarrow> Constructible \<Rightarrow> bool \<Rightarrow> State
   \<Rightarrow> (Error + MappingRef option) \<times> State" where
  "getMappingForDestination env dest sourceObj isInherit st =
     (let ((srcKey, destKey), st1) = getHashedNames env sourceObj dest False st;
          mapping = map_of (mappings st1) (getMappingKey env srcKey destKey)
      in if mapping = None \<and> \<not> isInherit then (Inl mappingNotFound2, st1)
         else (Inr mapping, st1))"

text \<open>\<^verbatim>\<open>_createReversedMappingObject\<close>. The names are read off
  \<^verbatim>\<open>prototype.constructor.name\<close>, which a class has; \<^verbatim>\<open>_inheritBaseMapping\<close> works on the
  reversed mapping before it is stored.\<close>

definition createReversedMappingObject ::
  "Env \<Rightarrow> Mapping \<Rightarrow> State \<Rightarrow> (Error + MappingRef) \<times> State" where
  "createReversedMappingObject env mapping st =
     (case hasMapping env (destination mapping) (source mapping) None None st of
        (Inl e, st1) \<Rightarrow> (Inl e, st1)
      | (Inr reversedKey, st1) \<Rightarrow>
          (let reversedMapping =
                 \<lparr>source = destination mapping,
                  sourceKey = ctor_name (destination mapping),
                  destination = source mapping,
                  destinationKey = ctor_name (source mapping),
                  properties = initializeReversedMappingProperties env mapping,
                  sourceMemberNamingConvention = destinationMemberNamingConvention mapping,
                  destinationMemberNamingConvention = sourceMemberNamingConvention mapping,
                  beforeMapAction = None,
                  afterMapAction = None,
                  baseSource = baseDestination mapping,
                  baseDestination = baseSource mapping\<rparr>;
               (inherited, st3) =
                 (case (baseSource reversedMapping, baseDestination reversedMapping) of
                    (Some bs, Some bd) \<Rightarrow>
                      (case getMappingForDestination env bd bs True st1 of
                         (Inl e, st2) \<Rightarrow> (reversedMapping, st2)
                       | (Inr None, st2) \<Rightarrow> (reversedMapping, st2)
                       | (Inr (Some b), st2) \<Rightarrow>
                           (case heapGet st2 b of
                              None \<Rightarrow> (reversedMapping, st2)
                            | Some reversedBaseMapping \<Rightarrow>
                                (inheritBaseMapping env reversedMapping reversedBaseMapping,
                                 st2)))
                  | _ \<Rightarrow> (reversedMapping, st1));
               r = length (heap st3)
           in (Inr r,
               st3\<lparr>heap := heap st3 @ [inherited],
                   mappings := assign (mappings st3) reversedKey r\<rparr>)))"

definition mappingNotFound1 :: "Constructible \<Rightarrow> Error" where
  "mappingNotFound1 src = Error (''Mapping not found for source '' @ ctor_name src)"

definition mappingNotFound :: "Constructible \<Rightarrow> Constructible \<Rightarrow> Error" where
  "mappingNotFound src dest =
     Error (''Mapping not found for source '' @ ctor_name src @ '' and destination ''
            @ ctor_name dest)"

definition getMapping ::
  "Env \<Rightarrow> Constructible \<Rightarrow> Constructible \<Rightarrow> State \<Rightarrow> (Error + MappingRef) \<times> State" where
  "getMapping env src dest st =
     (let ((srcKey, destKey), st1) = getHashedNames env src dest True st
      in (case map_of (mappings st1) (getMappingKey env srcKey destKey) of
            None \<Rightarrow> (Inl (mappingNotFound src dest), st1)
          | Some mapping \<Rightarrow> (Inr mapping, st1)))"

section \<open>Values and their classes\<close>

definition ArrayCtor :: Constructible where
  "ArrayCtor = Constructible 0 ''Array'' ''function Array() { [native code] }'' None"

definition BooleanCtor :: Constructible where
  "BooleanCtor = Constructible 1 ''Boolean'' ''function Boolean() { [native code] }'' None"

definition NumberCtor :: Constructible where
  "NumberCtor = Constructible 2 ''Number'' ''function Number() { [native code] }'' None"

definition StringCtor :: Constructible where
  "StringCtor = Constructible 3 ''String'' ''function String() { [native code] }'' None"

definition DateCtor :: Constructible where
  "DateCtor = Constructible 4 ''Date'' ''function Date() { [native code] }'' None"

text \<open>\<^verbatim>\<open>val.constructor\<close>; reading it off \<^verbatim>\<open>undefined\<close> or \<^verbatim>\<open>null\<close> throws.\<close>

definition constructorOf :: "Value \<Rightarrow> Constructible option" where
  "constructorOf v =
     (case v of
        Undefined \<Rightarrow> None
      | Null \<Rightarrow> None
      | Bool b \<Rightarrow> Some BooleanCtor
      | Num n \<Rightarrow> Some NumberCtor
      | Str s \<Rightarrow> Some StringCtor
      | DateV t \<Rightarrow> Some DateCtor
      | Arr xs \<Rightarrow> Some ArrayCtor
      | Obj c fs \<Rightarrow> Some c)"

fun inherits :: "Constructible \<Rightarrow> Constructible \<Rightarrow> bool" where
  "inherits (Constructible r n t p) c =
     (Constructible r n t p = c \<or> (case p of None \<Rightarrow> False | Some q \<Rightarrow> inherits q c))"

text \<open>\<^verbatim>\<open>v instanceof c\<close>: false of every primitive.\<close>

definition instanceOf :: "Value \<Rightarrow> Constructible \<Rightarrow> bool" where
  "instanceOf v c =
     (case v of
        Obj k fs \<Rightarrow> inherits k c
      | Arr xs \<Rightarrow> c = ArrayCtor
      | DateV t \<Rightarrow> c = DateCtor
      | _ \<Rightarrow> False)"

definition isArray :: "Value \<Rightarrow> bool" where
  "isArray v = (case v of Arr xs \<Rightarrow> True | _ \<Rightarrow> False)"

text \<open>\<^verbatim>\<open>typeof v === 'object' || typeof v === 'function'\<close>, for a value that is not
  \<^verbatim>\<open>null\<close>.\<close>

definition typeofObject :: "Value \<Rightarrow> bool" where
  "typeofObject v = (case v of Arr xs \<Rightarrow> True | Obj k fs \<Rightarrow> True | DateV t \<Rightarrow> True | _ \<Rightarrow> False)"

definition elements :: "Value \<Rightarrow> Value list" where
  "elements v = (case v of Arr xs \<Rightarrow> xs | _ \<Rightarrow> [])"

text \<open>\<^verbatim>\<open>xs[0]\<close>\<close>

definition first :: "Value list \<Rightarrow> Value" where
  "first xs = (case xs of [] \<Rightarrow> Undefined | x # _ \<Rightarrow> x)"

definition getMappingForNestedKey ::
  "Env \<Rightarrow> Value \<Rightarrow> State \<Rightarrow> (Error + MappingRef) \<times> State" where
  "getMappingForNestedKey env val st =
     (case constructorOf val of
        None \<Rightarrow> (Inl (TypeError ''Cannot read property constructor''), st)
      | Some sourceConstructor \<Rightarrow>
          (let (mappingName, st1) = getHash env sourceConstructor False st;
               destinationEntry =
                 find (\<lambda>(key, r). map_option sourceKey (heapGet st1 r)
                                   = Some (ctor_name sourceConstructor))
                   (filter (\<lambda>(key, r). includes_str key mappingName) (mappings st1))
           in (case destinationEntry of
                 None \<Rightarrow> (Inl (mappingNotFound1 sourceConstructor), st1)
               | Some (key, r) \<Rightarrow>
                   (case heapGet st1 r of
                      None \<Rightarrow> (Inl (mappingNotFound1 sourceConstructor), st1)
                    | Some entry \<Rightarrow> getMapping env sourceConstructor (destination entry) st1))))"

section \<open>Mapping one member\<close>

text \<open>
  \<^verbatim>\<open>_map\<close>, \<^verbatim>\<open>_mapArray\<close> and \<^verbatim>\<open>_mapMember\<close> call one another. Their bodies take the
  nested \<^verbatim>\<open>_map\<close> as the parameter \<open>rec\<close>; \<open>map'\<close> below closes the recursion with a budget
  of nested calls. An argument left out at a call (\<^verbatim>\<open>option\<close>, \<^verbatim>\<open>isArrayMap\<close>) is
  \<open>None\<close>.
\<close>

type_synonym MapFn =
  "Value \<Rightarrow> MappingRef \<Rightarrow> MapActionOptions option \<Rightarrow> bool option \<Rightarrow> State
   \<Rightarrow> (Error + Value) \<times> State"

definition emptyOptions :: MapActionOptions where
  "emptyOptions = \<lparr>beforeMap = None, afterMap = None\<rparr>"

primrec mapElements ::
  "MapFn \<Rightarrow> Value list \<Rightarrow> MappingRef \<Rightarrow> State \<Rightarrow> (Error + Value list) \<times> State" where
  "mapElements rec [] mref st = (Inr [], st)"
| "mapElements rec (s # ss) mref st =
     (case rec s mref (Some emptyOptions) (Some True) st of
        (Inl e, st1) \<Rightarrow> (Inl e, st1)
      | (Inr d, st1) \<Rightarrow>
          (case mapElements rec ss mref st1 of
             (Inl e, st2) \<Rightarrow> (Inl e, st2)
           | (Inr ds, st2) \<Rightarrow> (Inr (d # ds), st2)))"

text \<open>\<^verbatim>\<open>_mapArray\<close>: the before-hook works on the empty array that the mapped one then
  replaces, so only its call is recorded.\<close>

definition mapArray_with ::
  "Env \<Rightarrow> MapFn \<Rightarrow> Value list \<Rightarrow> MappingRef \<Rightarrow> MapActionOptions option \<Rightarrow> State
   \<Rightarrow> (Error + Value) \<times> State" where
  "mapArray_with env rec sourceArray mref option' st =
     (let option = (case option' of None \<Rightarrow> defaultMapActionOptions env | Some opt \<Rightarrow> opt);
          st1 = (case beforeMap option of
                   Some h \<Rightarrow> st\<lparr>log := log st @ [ArrayBeforeMapCalled]\<rparr>
                 | None \<Rightarrow> st)
      in (case mapElements rec sourceArray mref st1 of
            (Inl e, st2) \<Rightarrow> (Inl e, st2)
          | (Inr ds, st2) \<Rightarrow>
              (case afterMap option of
                 Some h \<Rightarrow>
                   (Inr (h (Arr sourceArray) (Arr ds)),
                    st2\<lparr>log := log st2 @ [ArrayAfterMapCalled]\<rparr>)
               | None \<Rightarrow> (Inr (Arr ds), st2))))"

definition setMember :: "Env \<Rightarrow> Value \<Rightarrow> string \<Rightarrow> Value \<Rightarrow> State \<Rightarrow> (Error + Value) \<times> State" where
  "setMember env destinationObj destMemberPath v st =
     (Inr (lodash_set env destinationObj destMemberPath v), st)"

definition warn :: "Event \<Rightarrow> State \<Rightarrow> State" where
  "warn e st = st\<lparr>log := log st @ [e]\<rparr>"

definition mapWithMember ::
  "Env \<Rightarrow> MapFn \<Rightarrow> Value \<Rightarrow> string \<Rightarrow> Value \<Rightarrow> string \<Rightarrow> MappingTransformation \<Rightarrow> State
   \<Rightarrow> (Error + Value) \<times> State" where
  "mapWithMember env rec destinationObj destMemberPath sourceObj propSourceMemberPath
     rule st =
     (let source' = (case mapWith rule of
                       None \<Rightarrow> Undefined
                     | Some mw \<Rightarrow> mw_fromValue mw sourceObj)
      in if isEmpty env source' then
           setMember env destinationObj destMemberPath Null
             (warn (WarnNotExist propSourceMemberPath) st)
         else if \<not> isClass env source' then
           setMember env destinationObj destMemberPath Null
             (warn (WarnPrimitive destMemberPath
                      (case mapWith rule of
                         None \<Rightarrow> ''undefined''
                       | Some mw \<Rightarrow> ctor_name (mw_destination mw))
                      source') st)
         else
           (case mapWith rule of
              None \<Rightarrow> (Inl (TypeError ''Cannot read property destination of undefined''), st)
            | Some mw \<Rightarrow>
                (case constructorOf source' of
                   None \<Rightarrow> (Inl (TypeError ''Cannot read property constructor''), st)
                 | Some c \<Rightarrow>
                     (case getMappingForDestination env (mw_destination mw) c False st of
                        (Inl e, st1) \<Rightarrow> (Inl e, st1)
                      | (Inr None, st1) \<Rightarrow> (Inl (TypeError ''mapping is undefined''), st1)
                      | (Inr (Some mapping'), st1) \<Rightarrow>
                          if isArray source' then
                            if isEmpty env (first (elements source')) then
                              setMember env destinationObj destMemberPath (Arr []) st1
                            else
                              (case mapArray_with env rec (elements source') mapping' None st1 of
                                 (Inl e, st2) \<Rightarrow> (Inl e, st2)
                               | (Inr d, st2) \<Rightarrow>
                                   setMember env destinationObj destMemberPath d st2)
                          else
                            (case rec source' mapping' None None st1 of
                               (Inl e, st2) \<Rightarrow> (Inl e, st2)
                             | (Inr d, st2) \<Rightarrow>
                                 setMember env destinationObj destMemberPath d st2)))))"

text \<open>The \<^verbatim>\<open>MapFrom\<close> rule. With a plain selector it ends with
  \<^verbatim>\<open>_setMappingPropertyForMapFromMember(destinationMemberPath, propSourceMemberPath, mapping, mapFrom)\<close>,
  which works on the mapping object itself: the store is updated at \<open>mref\<close>.\<close>

definition mapFromMember ::
  "Env \<Rightarrow> Value \<Rightarrow> string \<Rightarrow> Value \<Rightarrow> string \<Rightarrow> MappingRef \<Rightarrow> MappingTransformation \<Rightarrow> State
   \<Rightarrow> (Error + Value) \<times> State" where
  "mapFromMember env destinationObj destMemberPath sourceObj propSourceMemberPath mref
     rule st =
     (case mapFrom rule of
        None \<Rightarrow> (Inl (TypeError ''mapFrom is not a function''), st)
      | Some cb \<Rightarrow>
          if isResolver env cb then
            (case cb of
               ResolverObj resolve \<Rightarrow>
                 setMember env destinationObj destMemberPath
                   (resolve sourceObj destinationObj) st
             | Selector f \<Rightarrow> (Inl (TypeError ''mapFrom.resolve is not a function''), st))
          else
            (case cb of
               ResolverObj resolve \<Rightarrow> (Inl (TypeError ''mapFrom is not a function''), st)
             | Selector f \<Rightarrow>
                 (let mapFromValue = f sourceObj;
                      d = lodash_set env destinationObj destMemberPath mapFromValue
                  in (case heapGet st mref of
                        None \<Rightarrow> (Inl (TypeError ''mapping is undefined''), st)
                      | Some mapping \<Rightarrow>
                          (Inr d,
                           st\<lparr>heap := (heap st)
                                 [mref := setMappingPropertyForMapFromMember env
                                            destMemberPath propSourceMemberPath
                                            mapping f]\<rparr>)))))"

text \<open>The rule of a property with no transformation of its own (the code after the last
  \<^verbatim>\<open>if (type === ...)\<close>).\<close>

definition mapInitializeMember ::
  "Env \<Rightarrow> MapFn \<Rightarrow> Value \<Rightarrow> string \<Rightarrow> Value \<Rightarrow> MappingTransformation \<Rightarrow> State
   \<Rightarrow> (Error + Value) \<times> State" where
  "mapInitializeMember env rec destinationObj destMemberPath sourceObj rule st =
     (case mapFrom rule of
        Some (Selector f) \<Rightarrow>
          (let sourceVal = f sourceObj
           in if sourceVal = Undefined \<or> sourceVal = Null then
                setMember env destinationObj destMemberPath Null st
              else if isObjectLike env sourceVal \<and> isDate env sourceVal then
                setMember env destinationObj destMemberPath (newDate env sourceVal) st
              else
              if isObjectLike env sourceVal \<and> isArray sourceVal then
                (let xs = elements sourceVal
                 in if isEmpty env (first xs) then
                      setMember env destinationObj destMemberPath (Arr []) st
                    else if \<not> isObjectLike env (first xs) then
                      setMember env destinationObj destMemberPath (Arr xs) st
                    else
                      (case getMappingForNestedKey env (first xs) st of
                         (Inl e, st1) \<Rightarrow> (Inl e, st1)
                       | (Inr nestedMapping, st1) \<Rightarrow>
                           (case mapArray_with env rec xs nestedMapping None st1 of
                              (Inl e, st2) \<Rightarrow> (Inl e, st2)
                            | (Inr d, st2) \<Rightarrow>
                                setMember env destinationObj destMemberPath d st2)))
              else if typeofObject sourceVal \<and> isClass env sourceVal then
                (case getMappingForNestedKey env sourceVal st of
                   (Inl e, st1) \<Rightarrow> (Inl e, st1)
                 | (Inr nestedMapping, st1) \<Rightarrow>
                     (case rec sourceVal nestedMapping None None st1 of
                        (Inl e, st2) \<Rightarrow> (Inl e, st2)
                      | (Inr d, st2) \<Rightarrow>
                          setMember env destinationObj destMemberPath d st2))
              else setMember env destinationObj destMemberPath sourceVal st)
      | _ \<Rightarrow> (Inl (TypeError ''mapFrom is not a function''), st))"

definition mapMember_with ::
  "Env \<Rightarrow> MapFn \<Rightarrow> Value \<Rightarrow> string \<Rightarrow> Value \<Rightarrow> string \<Rightarrow> MappingRef \<Rightarrow> MappingTransformation
   \<Rightarrow> State \<Rightarrow> (Error + Value) \<times> State" where
  "mapMember_with env rec destinationObj destMemberPath sourceObj propSourceMemberPath
     mref rule st =
     (let type = ttype (transformationType rule)
      in if type = Ignore then
           setMember env destinationObj destMemberPath Null st
         else if type = ConvertUsing then
           (case convertUsing rule of
              None \<Rightarrow> (Inl (TypeError ''Cannot destructure convertUsing''), st)
            | Some cu \<Rightarrow>
                setMember env destinationObj destMemberPath
                  (converter cu (cu_value cu sourceObj)) st)
         else if type = MapWith then
           mapWithMember env rec destinationObj destMemberPath sourceObj
             propSourceMemberPath rule st
         else if type = FromValue then
           setMember env destinationObj destMemberPath (fromValue rule) st
         else if type = Condition then
           (case condition rule of
              None \<Rightarrow> setMember env destinationObj destMemberPath Null st
            | Some c \<Rightarrow>
                if predicate c sourceObj then
                  setMember env destinationObj destMemberPath
                    (get env sourceObj Null propSourceMemberPath) st
                else
                  setMember env destinationObj destMemberPath
                    (js_or (defaultValue c) Null) st)
         else if type = NullSubstituion then
           setMember env destinationObj destMemberPath
             (get env sourceObj (nullSubstitution rule) propSourceMemberPath) st
         else if type = MapFrom then
           mapFromMember env destinationObj destMemberPath sourceObj
             propSourceMemberPath mref rule st
         else
           mapInitializeMember env rec destinationObj destMemberPath sourceObj
             rule st)"

section \<open>Mapping an object\<close>

text \<open>The hook of one side of \<^verbatim>\<open>_map\<close>:
  \<^verbatim>\<open>if (!isArrayMap) { if (beforeMap) beforeMap(...) else if (beforeMapAction) beforeMapAction(...) }\<close>,
  and the same for \<^verbatim>\<open>afterMap\<close>. Each call is logged with its origin.\<close>

definition runHook ::
  "(HookOrigin \<Rightarrow> Event) \<Rightarrow> bool \<Rightarrow> MapAction option \<Rightarrow> MapAction option \<Rightarrow> Value \<Rightarrow> Value
   \<Rightarrow> State \<Rightarrow> Value \<times> State" where
  "runHook ev isArrayMap perCall configured sourceObj destinationObj st =
     (if \<not> isArrayMap then
        (case perCall of
           Some h \<Rightarrow> (h sourceObj destinationObj, st\<lparr>log := log st @ [ev PerCall]\<rparr>)
         | None \<Rightarrow>
             (case configured of
                Some g \<Rightarrow> (g sourceObj destinationObj, st\<lparr>log := log st @ [ev Configured]\<rparr>)
              | None \<Rightarrow> (destinationObj, st)))
      else (destinationObj, st))"

text \<open>One turn of the loop over the properties, after \<^verbatim>\<open>configKeys.push\<close>.\<close>

definition mapProperty_with ::
  "Env \<Rightarrow> MapFn \<Rightarrow> Value \<Rightarrow> Value \<Rightarrow> MappingRef \<Rightarrow> NamingConvention option
   \<Rightarrow> NamingConvention option \<Rightarrow> MappingProperty \<Rightarrow> State \<Rightarrow> (Error + Value) \<times> State" where
  "mapProperty_with env rec destinationObj sourceObj mref destinationConvention sourceConvention
     prop st =
     (let rule = transformation prop;
          destMemberPath = destinationMemberPath prop;
          propSourceMemberPath =
            getSourcePropertyKey env destinationConvention sourceConvention destMemberPath
      in (case preCondition (transformationType rule) of
            None \<Rightarrow>
              mapMember_with env rec destinationObj destMemberPath sourceObj
                propSourceMemberPath mref rule st
          | Some pc \<Rightarrow>
              if \<not> predicate pc sourceObj then
                (Inr (lodash_set env destinationObj destMemberPath
                        (js_or (defaultValue pc) Null)), st)
              else
                mapMember_with env rec destinationObj destMemberPath sourceObj
                  propSourceMemberPath mref rule st))"

primrec mapProperties ::
  "Env \<Rightarrow> MapFn \<Rightarrow> MappingProperty list \<Rightarrow> Value \<Rightarrow> Value \<Rightarrow> MappingRef
   \<Rightarrow> NamingConvention option \<Rightarrow> NamingConvention option \<Rightarrow> string list \<Rightarrow> State
   \<Rightarrow> (Error + Value \<times> string list) \<times> State" where
  "mapProperties env rec [] destinationObj sourceObj mref dc sc configKeys st =
     (Inr (destinationObj, configKeys), st)"
| "mapProperties env rec (p # props) destinationObj sourceObj mref dc sc configKeys st =
     (case mapProperty_with env rec destinationObj sourceObj mref dc sc p st of
        (Inl e, st1) \<Rightarrow> (Inl e, st1)
      | (Inr d, st1) \<Rightarrow>
          mapProperties env rec props d sourceObj mref dc sc
            (configKeys @ [destinationMemberPath p]) st1)"

definition map_with :: "Env \<Rightarrow> MapFn \<Rightarrow> MapFn" where
  "map_with env rec sourceObj0 mref option' isArrayMap' st =
     (let option = (case option' of None \<Rightarrow> defaultMapActionOptions env | Some opt \<Rightarrow> opt);
          isArrayMap = (case isArrayMap' of None \<Rightarrow> False | Some b \<Rightarrow> b)
      in (case heapGet st mref of
            None \<Rightarrow> (Inl (TypeError ''mapping is undefined''), st)
          | Some mapping \<Rightarrow>
              (let sourceObj =
                     (if instanceOf sourceObj0 (source mapping) then sourceObj0
                      else instantiate env (source mapping) (Some sourceObj0));
                   destinationObj = instantiate env (destination mapping) None;
                   (destinationObj1, st1) =
                     runHook BeforeMapCalled isArrayMap (beforeMap option)
                       (beforeMapAction mapping) sourceObj destinationObj st;
                   props = map snd (properties mapping)
               in (case mapProperties env rec props destinationObj1 sourceObj mref
                          (destinationMemberNamingConvention mapping)
                          (sourceMemberNamingConvention mapping) [] st1 of
                     (Inl e, st2) \<Rightarrow> (Inl e, st2)
                   | (Inr (destinationObj2, configKeys), st2) \<Rightarrow>
                       (case assertMappingErrors env destinationObj2 configKeys of
                          Some e \<Rightarrow> (Inl e, st2)
                        | None \<Rightarrow>
                            (let (destinationObj3, st3) =
                                   runHook AfterMapCalled isArrayMap (afterMap option)
                                     (afterMapAction mapping) sourceObj destinationObj2 st2
                             in (Inr destinationObj3, st3)))))))"

text \<open>What a call of \<^verbatim>\<open>_map\<close> logs is its own: a nested call starts with an empty log and
  the caller's log gets its events as one \<open>Nested\<close> event.\<close>

definition callNested :: "MapFn \<Rightarrow> MapFn" where
  "callNested f sourceObj mref option' isArrayMap' st =
     (case f sourceObj mref option' isArrayMap' (st\<lparr>log := []\<rparr>) of
        (r, st') \<Rightarrow> (r, st'\<lparr>log := log st @ [Nested (log st')]\<rparr>))"

text \<open>\<^verbatim>\<open>_map\<close>, with a budget of nested calls: a source graph nested deeper than the
  budget gives \<open>OutOfFuel\<close>.\<close>

primrec map' :: "Env \<Rightarrow> nat \<Rightarrow> MapFn" where
  "map' env 0 = (\<lambda>sourceObj mref option' isArrayMap' st. (Inl OutOfFuel, st))"
| "map' env (Suc n) = map_with env (callNested (map' env n))"

definition mapMember ::
  "Env \<Rightarrow> nat \<Rightarrow> Value \<Rightarrow> string \<Rightarrow> Value \<Rightarrow> string \<Rightarrow> MappingRef \<Rightarrow> MappingTransformation
   \<Rightarrow> State \<Rightarrow> (Error + Value) \<times> State" where
  "mapMember env n = mapMember_with env (callNested (map' env n))"

definition mapArray ::
  "Env \<Rightarrow> nat \<Rightarrow> Value list \<Rightarrow> MappingRef \<Rightarrow> MapActionOptions option \<Rightarrow> State
   \<Rightarrow> (Error + Value) \<times> State" where
  "mapArray env n = mapArray_with env (callNested (map' env n))"

text \<open>A promise made by \<^verbatim>\<open>Promise.resolve().then(f)\<close>: \<open>f\<close> is run later, on the state of
  that moment, and the promise is fulfilled with what \<open>f\<close> returns or rejected with what it
  throws.\<close>

datatype 'a Promise = Deferred "State \<Rightarrow> (Error + 'a) \<times> State"

primrec settle :: "'a Promise \<Rightarrow> State \<Rightarrow> (Error + 'a) \<times> State" where
  "settle (Deferred f) st = f st"

definition mapAsync ::
  "Env \<Rightarrow> nat \<Rightarrow> Value \<Rightarrow> MappingRef \<Rightarrow> MapActionOptions option \<Rightarrow> bool option
   \<Rightarrow> Value Promise" where
  "mapAsync env n sourceObj mref option' isArrayMap' =
     (let option = (case option' of None \<Rightarrow> defaultMapActionOptions env | Some opt \<Rightarrow> opt);
          isArrayMap = (case isArrayMap' of None \<Rightarrow> False | Some b \<Rightarrow> b)
      in Deferred (\<lambda>st. map' env n sourceObj mref (Some option) (Some isArrayMap) st))"

definition mapArrayAsync ::
  "Env \<Rightarrow> nat \<Rightarrow> Value list \<Rightarrow> MappingRef \<Rightarrow> MapActionOptions option \<Rightarrow> Value Promise" where
  "mapArrayAsync env n sourceArray mref option' =
     (let option = (case option' of None \<Rightarrow> defaultMapActionOptions env | Some opt \<Rightarrow> opt)
      in Deferred (\<lambda>st. mapArray env n sourceArray mref (Some option) st))"

section \<open>The collaborators, as the specification describes them\<close>

text \<open>
  One environment to run the functions above on concrete inputs. Each collaborator is
  written from what the specification says of it; the theorems that hold for every
  environment do not use it.
\<close>

definition ObjectCtor :: Constructible where
  "ObjectCtor = Constructible 5 ''Object'' ''function Object() { [native code] }'' None"

fun splitOn :: "char \<Rightarrow> string \<Rightarrow> string list" where
  "splitOn sep [] = [[]]"
| "splitOn sep (c # cs) =
     (if c = sep then [] # splitOn sep cs
      else (case splitOn sep cs of [] \<Rightarrow> [[c]] | w # ws \<Rightarrow> (c # w) # ws))"

definition fields :: "Value \<Rightarrow> (string \<times> Value) list" where
  "fields v = (case v of Obj c fs \<Rightarrow> fs | _ \<Rightarrow> [])"

definition member :: "Value \<Rightarrow> string \<Rightarrow> Value" where
  "member v k = (case map_of (fields v) k of None \<Rightarrow> Undefined | Some x \<Rightarrow> x)"

text \<open>Modelled from the spec: \<^verbatim>\<open>set\<close> of \<^verbatim>\<open>lodash.set\<close>, which is not among the sources.
  "Destination member paths may be nested (a.b.c) and are interpreted as dot-separated
  property access on write"; "nested-path-creating assignment (intermediate objects are
  created as needed along the path)". A destination that is not an object is left as it is.\<close>

fun setPath :: "Value \<Rightarrow> string list \<Rightarrow> Value \<Rightarrow> Value" where
  "setPath d [] v = d"
| "setPath d [k] v = (case d of Obj c fs \<Rightarrow> Obj c (assign fs k v) | _ \<Rightarrow> d)"
| "setPath d (k # k' # ks) v =
     (case d of
        Obj c fs \<Rightarrow>
          Obj c (assign fs k
                   (setPath (case member d k of
                               Obj c' fs' \<Rightarrow> Obj c' fs'
                             | _ \<Rightarrow> Obj ObjectCtor [])
                      (k' # ks) v))
      | _ \<Rightarrow> d)"

definition spec_set :: "Value \<Rightarrow> string \<Rightarrow> Value \<Rightarrow> Value" where
  "spec_set d path v = setPath d (splitOn CHR ''.'' path) v"

text \<open>Modelled from the spec: \<^verbatim>\<open>_get\<close> of \<^verbatim>\<open>./utils\<close>, which is not among the sources.
  "\<^verbatim>\<open>get(source, sourcePath)\<close> if present, else a configured substitute value": the value at the
  dot-separated path, the default where there is none.\<close>

definition spec_get :: "Value \<Rightarrow> Value \<Rightarrow> string \<Rightarrow> Value" where
  "spec_get sourceObj dflt path =
     (let v = foldl member sourceObj (splitOn CHR ''.'' path)
      in if v = Undefined \<or> v = Null then dflt else v)"

text \<open>Modelled from the spec: \<^verbatim>\<open>instantiate\<close> of \<^verbatim>\<open>./metadata-explorer\<close>, which is not
  among the sources. "Produces a new instance of a given type, optionally seeded from a plain
  data bag".\<close>

definition spec_instantiate :: "Constructible \<Rightarrow> Value option \<Rightarrow> Value" where
  "spec_instantiate c seed = Obj c (case seed of None \<Rightarrow> [] | Some v \<Rightarrow> fields v)"

text \<open>Modelled from the spec: \<^verbatim>\<open>_assertMappingErrors\<close> of \<^verbatim>\<open>./utils\<close>, which is not among
  the sources. "Walks the destination instance's own settable property paths; for every path
  that is neither in configuredPaths nor successfully set during mapping, raises a single
  consolidated error listing all offending paths".\<close>

definition spec_assertMappingErrors :: "Value \<Rightarrow> string list \<Rightarrow> Error option" where
  "spec_assertMappingErrors destinationObj configKeys =
     (let unmapped = map fst (filter (\<lambda>(k, v). k \<notin> set configKeys \<and> v = Undefined)
                                (fields destinationObj))
      in if unmapped = [] then None
         else Some (Error (''Unmapped properties: '' @ concat (map (\<lambda>k. k @ '' '') unmapped))))"

text \<open>Modelled from the spec: \<^verbatim>\<open>_getMappingKey\<close> of \<^verbatim>\<open>./utils\<close>, which is not among the
  sources. "Concatenating the two identity hashes with a delimiter guaranteed not to appear
  inside either hash".\<close>

definition spec_getMappingKey :: "string \<Rightarrow> string \<Rightarrow> string" where
  "spec_getMappingKey s d = s @ ''->'' @ d"

text \<open>Modelled from the spec: \<^verbatim>\<open>_getSourcePropertyKey\<close> of \<^verbatim>\<open>./utils\<close>, which is not among
  the sources. "Splits the destination path into identifier segments per the destination
  convention's splitting rule, re-joins them per the source convention's joining rule. When
  either convention is unset, the path passes through unchanged".\<close>

definition spec_getSourcePropertyKey ::
  "NamingConvention option \<Rightarrow> NamingConvention option \<Rightarrow> string \<Rightarrow> string" where
  "spec_getSourcePropertyKey destinationConvention sourceConvention path =
     (case (destinationConvention, sourceConvention) of
        (Some d, Some s) \<Rightarrow> joinPath s (splitPath d path)
      | _ \<Rightarrow> path)"

text \<open>Modelled from the spec: \<^verbatim>\<open>_inheritBaseMapping\<close> of \<^verbatim>\<open>./utils\<close>, which is not among the
  sources. "Merges its property rules into the new reverse mapping wherever the reverse
  mapping does not already define that destination path".\<close>

definition spec_inheritBaseMapping :: "Mapping \<Rightarrow> Mapping \<Rightarrow> Mapping" where
  "spec_inheritBaseMapping mapping baseMapping =
     mapping\<lparr>properties :=
       properties mapping
       @ filter (\<lambda>(k, p). map_of (properties mapping) k = None) (properties baseMapping)\<rparr>"

definition structuralCopy :: "string \<Rightarrow> string \<Rightarrow> MappingProperty" where
  "structuralCopy destPath srcPath =
     \<lparr>destinationMemberPath = destPath,
      sourceMemberPath = Some srcPath,
      transformation =
        \<lparr>transformationType = \<lparr>ttype = MapInitialize, preCondition = None\<rparr>,
         mapFrom = Some (Selector (\<lambda>s. spec_get s Undefined srcPath)),
         fromValue = Undefined,
         convertUsing = None,
         mapWith = None,
         condition = None,
         nullSubstitution = Undefined\<rparr>\<rparr>"

text \<open>Modelled from the spec: \<^verbatim>\<open>_initializeReversedMappingProperties\<close> of \<^verbatim>\<open>./utils\<close>,
  which is not among the sources. A rule with a recorded source path "inverts to a direct
  structural copy rule from that path"; without one "the property is left unmapped in the
  reverse direction".\<close>

definition spec_initializeReversedMappingProperties ::
  "Mapping \<Rightarrow> (string \<times> MappingProperty) list" where
  "spec_initializeReversedMappingProperties mapping =
     concat (map (\<lambda>(k, p). case sourceMemberPath p of
                              None \<Rightarrow> []
                            | Some sp \<Rightarrow> [(sp, structuralCopy sp (destinationMemberPath p))])
               (properties mapping))"

text \<open>Modelled from the spec: \<^verbatim>\<open>_isEmpty\<close>, \<^verbatim>\<open>_isObjectLike\<close>, \<^verbatim>\<open>_isClass\<close>,
  \<^verbatim>\<open>_isDate\<close> and \<^verbatim>\<open>_isResolver\<close> of \<^verbatim>\<open>./utils\<close>, which are not among the sources.
  Empty is "absent or null"; object-like values are dates, arrays and class instances, as
  opposed to primitives, and a class instance is what is not "a primitive where an object was
  expected"; a date is "an object-like source value identified as a timestamp"; a resolver is
  "a stateful resolver object" as opposed to "a plain selector function".\<close>

definition spec_isEmpty :: "Value \<Rightarrow> bool" where
  "spec_isEmpty v = (v = Undefined \<or> v = Null)"

definition spec_isDate :: "Value \<Rightarrow> bool" where
  "spec_isDate v = (case v of DateV t \<Rightarrow> True | _ \<Rightarrow> False)"

definition spec_isResolver :: "MapFromCallback \<Rightarrow> bool" where
  "spec_isResolver cb = (case cb of ResolverObj r \<Rightarrow> True | Selector f \<Rightarrow> False)"

text \<open>Modelled from the spec: \<^verbatim>\<open>_setMappingPropertyForMapFromMember\<close> of \<^verbatim>\<open>./utils\<close>,
  which is not among the sources. A \<^verbatim>\<open>MapFrom\<close> rule is "used to record the implied source
  path for later reverse-mapping derivation": the rule of the mapping at the destination path
  is set again, with the source path recorded.\<close>

definition spec_setMappingPropertyForMapFromMember ::
  "string \<Rightarrow> string \<Rightarrow> Mapping \<Rightarrow> (Value \<Rightarrow> Value) \<Rightarrow> Mapping" where
  "spec_setMappingPropertyForMapFromMember destPath srcPath mapping f =
     mapping\<lparr>properties :=
       assign (properties mapping) destPath
         \<lparr>destinationMemberPath = destPath,
          sourceMemberPath = Some srcPath,
          transformation =
            (case map_of (properties mapping) destPath of
               Some p \<Rightarrow> (transformation p)\<lparr>mapFrom := Some (Selector f)\<rparr>
             | None \<Rightarrow>
                 \<lparr>transformationType = \<lparr>ttype = MapFrom, preCondition = None\<rparr>,
                  mapFrom = Some (Selector f),
                  fromValue = Undefined,
                  convertUsing = None,
                  mapWith = None,
                  condition = None,
                  nullSubstitution = Undefined\<rparr>)\<rparr>\<rparr>"

text \<open>Modelled from the spec: the remaining collaborators, none of them among the sources.
  \<^verbatim>\<open>defaultMapActionOptions\<close> has no hook (both are optional); \<^verbatim>\<open>_getProto\<close> is the class
  a class extends (the "inheritance chain"); \<^verbatim>\<open>_wrapMappingKey\<close> adds nothing to "the type's
  own serialized definition"; a date "is copied by value into a new timestamp instance".\<close>

definition spec_env :: Env where
  "spec_env =
     \<lparr>instantiate = spec_instantiate,
      lodash_set = spec_set,
      newDate = (\<lambda>v. v),
      defaultMapActionOptions = emptyOptions,
      assertMappingErrors = spec_assertMappingErrors,
      get = spec_get,
      getMappingKey = spec_getMappingKey,
      getProto = ctor_proto,
      getSourcePropertyKey = spec_getSourcePropertyKey,
      inheritBaseMapping = spec_inheritBaseMapping,
      initializeReversedMappingProperties = spec_initializeReversedMappingProperties,
      isClass = typeofObject,
      isDate = spec_isDate,
      isEmpty = spec_isEmpty,
      isObjectLike = typeofObject,
      isResolver = spec_isResolver,
      setMappingPropertyForMapFromMember = spec_setMappingPropertyForMapFromMember,
      wrapMappingKey = (\<lambda>s. s)\<rparr>"

section \<open>Notions of the claims, and the inputs of the examples\<close>

text \<open>
  A mapping for the ordered pair \<open>(src, dest)\<close> is registered when both classes have their
  cached hash and \<^verbatim>\<open>_mappings\<close> holds, under the key of the two hashes, a mapping from \<open>src\<close>
  to \<open>dest\<close>: what a successful \<^verbatim>\<open>_createMappingObject\<close> leaves (lemma
  \<open>createMappingObject_registers\<close>) and later registrations keep (lemma
  \<open>createMappingObject_keeps_registered\<close>).
\<close>

definition registered :: "Env \<Rightarrow> State \<Rightarrow> Constructible \<Rightarrow> Constructible \<Rightarrow> bool" where
  "registered env st src dest =
     (case (classNameMap st src, classNameMap st dest) of
        (Some s, Some d) \<Rightarrow>
          (case map_of (mappings st) (getMappingKey env s d) of
             Some r \<Rightarrow>
               (case heapGet st r of
                  Some m \<Rightarrow> source m = src \<and> destination m = dest
                | None \<Rightarrow> False)
           | None \<Rightarrow> False)
      | _ \<Rightarrow> False)"

text \<open>The identity \<^verbatim>\<open>_getHash\<close> gives a class it sees for the first time.\<close>

definition typeHash :: "Env \<Rightarrow> Constructible \<Rightarrow> string" where
  "typeHash env c = int32_toString (hashCode (trim (wrapMappingKey env (ctor_toString c))))"

text \<open>Two classes \<^verbatim>\<open>Person\<close> with the same text, defined in two places, and a class
  \<^verbatim>\<open>PersonDto\<close>.\<close>

definition Person :: Constructible where
  "Person = Constructible 10 ''Person'' ''class Person {}'' None"

definition PersonDto :: Constructible where
  "PersonDto = Constructible 11 ''PersonDto'' ''class PersonDto {}'' None"

definition Person2 :: Constructible where
  "Person2 = Constructible 12 ''Person'' ''class Person {}'' None"

definition noOptions :: CreateMapOptions where
  "noOptions =
     \<lparr>opt_sourceMemberNamingConvention = None, opt_destinationMemberNamingConvention = None\<rparr>"

text \<open>The registry after \<^verbatim>\<open>createMapping(Person, PersonDto)\<close> on a new mapper.\<close>

definition registry1 :: State where
  "registry1 = snd (createMappingObject spec_env Person PersonDto noOptions init)"

text \<open>The mapping object that \<^verbatim>\<open>createMapping(Person, PersonDto)\<close> makes, and the registry
  after \<^verbatim>\<open>createMapping(PersonDto, Person)\<close> as well.\<close>

definition personToDto :: Mapping where
  "personToDto =
     \<lparr>source = Person, sourceKey = ''Person'', destination = PersonDto,
      destinationKey = ''PersonDto'', properties = [],
      sourceMemberNamingConvention = None, destinationMemberNamingConvention = None,
      beforeMapAction = None, afterMapAction = None, baseSource = None,
      baseDestination = None\<rparr>"

definition registry2 :: State where
  "registry2 = snd (createMappingObject spec_env PersonDto Person noOptions registry1)"

text \<open>The write of the configuration layer, \<^verbatim>\<open>mapping.properties.set(path, rule)\<close>, by which
  the examples give a mapping its rules.\<close>

definition setProperty ::
  "MappingRef \<Rightarrow> string \<Rightarrow> MappingTransformation \<Rightarrow> State \<Rightarrow> State" where
  "setProperty r path rule st =
     (case heapGet st r of
        None \<Rightarrow> st
      | Some m \<Rightarrow>
          st\<lparr>heap := (heap st)
                [r := m\<lparr>properties :=
                          assign (properties m) path
                            \<lparr>destinationMemberPath = path, sourceMemberPath = None,
                             transformation = rule\<rparr>\<rparr>]\<rparr>)"

definition noRule :: MappingTransformation where
  "noRule =
     \<lparr>transformationType = \<lparr>ttype = MapInitialize, preCondition = None\<rparr>,
      mapFrom = None, fromValue = Undefined, convertUsing = None, mapWith = None,
      condition = None, nullSubstitution = Undefined\<rparr>"

text \<open>\<^verbatim>\<open>Person -> PersonDto\<close> with one rule, at the path \<open>path\<close>.\<close>

definition configured :: "string \<Rightarrow> MappingTransformation \<Rightarrow> State" where
  "configured path rule = setProperty 0 path rule registry1"

definition ada :: Value where
  "ada = Obj Person [(''firstName'', Str ''Ada''), (''lastName'', Str ''Lovelace''),
                     (''age'', Num 36)]"

text \<open>\<^verbatim>\<open>condition(s => false, dflt)\<close>\<close>

definition conditionRule :: "Value \<Rightarrow> MappingTransformation" where
  "conditionRule dflt =
     noRule\<lparr>transformationType := \<lparr>ttype = Condition, preCondition = None\<rparr>,
            condition := Some \<lparr>predicate = (\<lambda>s. False), defaultValue = dflt\<rparr>\<rparr>"

text \<open>\<^verbatim>\<open>preCondition(s => false, dflt)\<close> before \<^verbatim>\<open>fromValue('x')\<close>\<close>

definition preConditionRule :: "Value \<Rightarrow> MappingTransformation" where
  "preConditionRule dflt =
     noRule\<lparr>transformationType :=
              \<lparr>ttype = FromValue,
               preCondition = Some \<lparr>predicate = (\<lambda>s. False), defaultValue = dflt\<rparr>\<rparr>,
            fromValue := Str ''x''\<rparr>"

definition ignoreRule :: MappingTransformation where
  "ignoreRule = noRule\<lparr>transformationType := \<lparr>ttype = Ignore, preCondition = None\<rparr>\<rparr>"



text \<open>\<^verbatim>\<open>mapWith(PersonDto, s => s.friends)\<close>, the same property with no rule of its own, and a
  \<^verbatim>\<open>Person\<close> with the given array of friends.\<close>

definition friendsRule :: MappingTransformation where
  "friendsRule =
     noRule\<lparr>transformationType := \<lparr>ttype = MapWith, preCondition = None\<rparr>,
            mapWith := Some \<lparr>mw_destination = PersonDto,
                             mw_fromValue = (\<lambda>s. member s ''friends'')\<rparr>\<rparr>"

definition friendsInitialize :: MappingTransformation where
  "friendsInitialize = noRule\<lparr>mapFrom := Some (Selector (\<lambda>s. member s ''friends''))\<rparr>"

definition withFriends :: "Value list \<Rightarrow> Value" where
  "withFriends xs = Obj Person [(''friends'', Arr xs)]"

text \<open>The events of the log that are calls of a hook of \<^verbatim>\<open>_map\<close> by the call that owns
  the log; the hook calls of a nested call lie inside its \<open>Nested\<close> event.\<close>

fun isHookEvent :: "Event \<Rightarrow> bool" where
  "isHookEvent (BeforeMapCalled origin) = True"
| "isHookEvent (AfterMapCalled origin) = True"
| "isHookEvent e = False"







text \<open>
  What mapping the properties of one object may do to the state, step by step: cache a hash,
  log an event (a hook call only where \<open>hooks\<close> allows it), run a nested \<^verbatim>\<open>_map\<close>, and let
  \<^verbatim>\<open>_setMappingPropertyForMapFromMember\<close> write to the mapping object at \<open>mref\<close>, for a
  destination path and a selector that \<open>W\<close> allows. The lemmas \<open>mapProperties_steps\<close> and
  \<open>map_with_steps\<close> show that the code does nothing else.
\<close>

inductive steps ::
  "Env \<Rightarrow> MapFn \<Rightarrow> bool \<Rightarrow> (string \<times> (Value \<Rightarrow> Value)) set \<Rightarrow> MappingRef \<Rightarrow> State \<Rightarrow> State
   \<Rightarrow> bool"
  for env :: Env and rec :: MapFn and hooks :: bool
    and W :: "(string \<times> (Value \<Rightarrow> Value)) set" and mref :: MappingRef
  where
    same: "steps env rec hooks W mref st st"
  | chain: "steps env rec hooks W mref st st1 \<Longrightarrow> steps env rec hooks W mref st1 st2
           \<Longrightarrow> steps env rec hooks W mref st st2"
  | cached: "steps env rec hooks W mref st (st\<lparr>classNameMap := f\<rparr>)"
  | logged: "hooks \<or> \<not> isHookEvent e
           \<Longrightarrow> steps env rec hooks W mref st (st\<lparr>log := log st @ [e]\<rparr>)"
  | nested: "steps env rec hooks W mref st (snd (rec s m opt a st))"
  | recorded: "(dp, f) \<in> W \<Longrightarrow> heapGet st mref = Some m
           \<Longrightarrow> steps env rec hooks W mref st
                 (st\<lparr>heap := (heap st)
                       [mref := setMappingPropertyForMapFromMember env dp sp m f]\<rparr>)"

text \<open>\<open>m'\<close> is \<open>m\<close> but for its \<^verbatim>\<open>properties\<close>.\<close>

definition sameButProperties :: "Mapping \<Rightarrow> Mapping \<Rightarrow> bool" where
  "sameButProperties m m' = (m'\<lparr>properties := properties m\<rparr> = m)"













section \<open>The registry: hashes, keys and lookups\<close>

lemma map_of_assign: "map_of (assign kvs k v) k' = (if k' = k then Some v else map_of kvs k')"
  by (induction kvs) auto

lemma getHash_cached: "classNameMap st c = Some h \<Longrightarrow> getHash env c b st = (h, st)"
  by (simp add: getHash_def)

lemma getHash_fresh:
  "classNameMap st c = None \<Longrightarrow>
   getHash env c True st = (typeHash env c, st\<lparr>classNameMap := (classNameMap st)(c \<mapsto> typeHash env c)\<rparr>)"
  by (simp add: getHash_def typeHash_def Let_def)

lemma getHash_frame:
  "getHash env c b st = (h, st') \<Longrightarrow>
   mappings st' = mappings st \<and> heap st' = heap st \<and> log st' = log st"
  by (auto simp: getHash_def Let_def split: option.splits if_splits)

lemma getHash_mono:
  "getHash env c b st = (h, st') \<Longrightarrow> classNameMap st c' = Some x \<Longrightarrow> classNameMap st' c' = Some x"
  by (auto simp: getHash_def Let_def split: option.splits if_splits)

lemma getHash_create:
  "getHash env c True st = (h, st') \<Longrightarrow> classNameMap st' c = Some h"
  by (auto simp: getHash_def Let_def split: option.splits if_splits)

lemma getHash_nocreate: "getHash env c False st = (h, st') \<Longrightarrow> st' = st"
  by (auto simp: getHash_def Let_def split: option.splits if_splits)

lemma getHashedNames_cached:
  "classNameMap st s = Some sk \<Longrightarrow> classNameMap st d = Some dk \<Longrightarrow>
   getHashedNames env s d b st = ((sk, dk), st)"
  by (simp add: getHashedNames_def getHash_cached)

lemma getHashedNames_frame:
  assumes "getHashedNames env s d b st = (ks, st')"
  shows "mappings st' = mappings st \<and> heap st' = heap st \<and> log st' = log st"
proof -
  obtain a st1 where 1: "getHash env s b st = (a, st1)" by (metis prod.exhaust)
  obtain c st2 where 2: "getHash env d b st1 = (c, st2)" by (metis prod.exhaust)
  from assms 1 2 have "st' = st2" by (simp add: getHashedNames_def)
  with getHash_frame[OF 1] getHash_frame[OF 2] show ?thesis by simp
qed

lemma getHashedNames_mono:
  "getHashedNames env s d b st = (ks, st') \<Longrightarrow> classNameMap st c' = Some x \<Longrightarrow>
   classNameMap st' c' = Some x"
  by (auto simp: getHashedNames_def split: prod.splits dest: getHash_mono)

lemma getHashedNames_create:
  "getHashedNames env s d True st = ((sk, dk), st') \<Longrightarrow>
   classNameMap st' s = Some sk \<and> classNameMap st' d = Some dk"
  by (auto simp: getHashedNames_def split: prod.splits dest: getHash_mono getHash_create)

lemma getHashedNames_nocreate: "getHashedNames env s d False st = (ks, st') \<Longrightarrow> st' = st"
  by (auto simp: getHashedNames_def split: prod.splits dest: getHash_nocreate)

lemma hasMapping_present:
  "classNameMap st s = Some sk \<Longrightarrow> classNameMap st d = Some dk \<Longrightarrow>
   map_of (mappings st) (getMappingKey env sk dk) = Some r \<Longrightarrow>
   ks = None \<or> ks = Some sk \<Longrightarrow> kd = None \<or> kd = Some dk \<Longrightarrow>
   hasMapping env s d ks kd st = (Inl (alreadyExisted s d), st)"
  by (auto simp: hasMapping_def getHashedNames_cached)

lemma hasMapping_absent:
  "classNameMap st s = Some sk \<Longrightarrow> classNameMap st d = Some dk \<Longrightarrow>
   map_of (mappings st) (getMappingKey env sk dk) = None \<Longrightarrow>
   ks = None \<or> ks = Some sk \<Longrightarrow> kd = None \<or> kd = Some dk \<Longrightarrow>
   hasMapping env s d ks kd st = (Inr (getMappingKey env sk dk), st)"
  by (auto simp: hasMapping_def getHashedNames_cached)

lemma hasMapping_None:
  assumes "getHashedNames env s d True st = ((sk, dk), st1)"
  shows "hasMapping env s d None None st =
     (case map_of (mappings st) (getMappingKey env sk dk) of
        Some r \<Rightarrow> (Inl (alreadyExisted s d), st1)
      | None \<Rightarrow> (Inr (getMappingKey env sk dk), st1))"
  using assms getHashedNames_frame[OF assms]
  by (simp add: hasMapping_def split: option.splits)

lemma createMappingObject_cases:
  assumes "getHashedNames env s d True st = ((sk, dk), st1)"
  shows "createMappingObject env s d opts st =
     (case map_of (mappings st) (getMappingKey env sk dk) of
        Some r \<Rightarrow> (Inl (alreadyExisted s d), st1)
      | None \<Rightarrow>
          (Inr (length (heap st)),
           st1\<lparr>heap := heap st @
                  [\<lparr>source = s, sourceKey = ctor_name s, destination = d,
                    destinationKey = ctor_name d, properties = [],
                    sourceMemberNamingConvention = opt_sourceMemberNamingConvention opts,
                    destinationMemberNamingConvention = opt_destinationMemberNamingConvention opts,
                    beforeMapAction = None, afterMapAction = None,
                    baseSource = None, baseDestination = None\<rparr>],
               mappings := assign (mappings st) (getMappingKey env sk dk) (length (heap st))\<rparr>))"
proof -
  from assms have c: "classNameMap st1 s = Some sk" "classNameMap st1 d = Some dk"
    by (auto dest: getHashedNames_create)
  from assms have f: "mappings st1 = mappings st" "heap st1 = heap st"
    by (auto dest: getHashedNames_frame)
  show ?thesis
  proof (cases "map_of (mappings st) (getMappingKey env sk dk)")
    case None
    with c f have "hasMapping env s d (Some sk) (Some dk) st1 = (Inr (getMappingKey env sk dk), st1)"
      by (intro hasMapping_absent) auto
    with assms None f show ?thesis by (simp add: createMappingObject_def Let_def)
  next
    case (Some r)
    with c f have "hasMapping env s d (Some sk) (Some dk) st1 = (Inl (alreadyExisted s d), st1)"
      by (intro hasMapping_present[where r=r]) auto
    with assms Some show ?thesis by (simp add: createMappingObject_def)
  qed
qed

lemma createMappingObject_registers:
  assumes "createMappingObject env s d opts st = (Inr r, st')"
  shows "registered env st' s d"
proof -
  obtain sk dk st1 where g: "getHashedNames env s d True st = ((sk, dk), st1)"
    by (metis prod.exhaust)
  from g have c: "classNameMap st1 s = Some sk" "classNameMap st1 d = Some dk"
    by (auto dest: getHashedNames_create)
  from assms show ?thesis
    unfolding createMappingObject_cases[OF g]
    using c by (auto simp: registered_def map_of_assign heapGet_def split: option.splits)
qed

lemma createMappingObject_init:
  "\<exists>st'. createMappingObject env s d opts init = (Inr 0, st')"
proof -
  obtain sk dk st1 where g: "getHashedNames env s d True init = ((sk, dk), st1)"
    by (metis prod.exhaust)
  show ?thesis unfolding createMappingObject_cases[OF g] by (simp add: init_def)
qed

lemma heapGet_append:
  "heapGet st r = Some m \<Longrightarrow> heap st' = heap st @ ms \<Longrightarrow> heapGet st' r = Some m"
  by (auto simp: heapGet_def nth_append split: if_splits)

lemma registered_mono:
  assumes "registered env st a b"
    and "\<And>c x. classNameMap st c = Some x \<Longrightarrow> classNameMap st' c = Some x"
    and "\<And>k r. map_of (mappings st) k = Some r \<Longrightarrow> map_of (mappings st') k = Some r"
    and "\<And>r m. heapGet st r = Some m \<Longrightarrow> heapGet st' r = Some m"
  shows "registered env st' a b"
  using assms(1) unfolding registered_def
  by (auto split: option.splits dest!: assms(2-4))

lemma createMappingObject_keeps_registered:
  assumes "registered env st a b"
  shows "registered env (snd (createMappingObject env s d opts st)) a b"
proof -
  obtain sk dk st1 where g: "getHashedNames env s d True st = ((sk, dk), st1)"
    by (metis prod.exhaust)
  have m: "\<And>c x. classNameMap st c = Some x \<Longrightarrow> classNameMap st1 c = Some x"
    using getHashedNames_mono[OF g] .
  have f: "mappings st1 = mappings st" "heap st1 = heap st"
    using getHashedNames_frame[OF g] by auto
  show ?thesis
  proof (cases "map_of (mappings st) (getMappingKey env sk dk)")
    case (Some r)
    then have "snd (createMappingObject env s d opts st) = st1"
      by (simp add: createMappingObject_cases[OF g])
    moreover have "registered env st1 a b"
      by (rule registered_mono[OF assms]) (auto simp: m f heapGet_def split: if_splits)
    ultimately show ?thesis by simp
  next
    case None
    show ?thesis
      unfolding createMappingObject_cases[OF g] using None
      by (auto intro!: registered_mono[OF assms] simp: m f map_of_assign heapGet_def nth_append
          split: if_splits)
  qed
qed

lemma getMappingForDestination_state:
  assumes "getMappingForDestination env d s b st = (res, st')"
  shows "st' = st"
proof -
  obtain ks st1 where g: "getHashedNames env s d False st = (ks, st1)" by (metis prod.exhaust)
  then have "st1 = st" by (rule getHashedNames_nocreate)
  with g assms show ?thesis
    by (auto simp: getMappingForDestination_def Let_def split: prod.splits if_splits)
qed

lemma createReversedMappingObject_success:
  assumes g: "getHashedNames env (destination m) (source m) True st = ((dk, sk), st1)"
    and n: "map_of (mappings st) (getMappingKey env dk sk) = None"
  shows "\<exists>rev. createReversedMappingObject env m st =
     (Inr (length (heap st)),
      st1\<lparr>heap := heap st @ [rev],
          mappings := assign (mappings st) (getMappingKey env dk sk) (length (heap st))\<rparr>)"
proof -
  have f: "mappings st1 = mappings st" "heap st1 = heap st"
    using getHashedNames_frame[OF g] by auto
  have h: "hasMapping env (destination m) (source m) None None st
           = (Inr (getMappingKey env dk sk), st1)"
    using hasMapping_None[OF g] n by simp
  show ?thesis
    unfolding createReversedMappingObject_def h
    by (auto simp: Let_def f split: option.splits prod.splits sum.splits
        dest!: getMappingForDestination_state)
qed

lemma typeHash_text: "ctor_toString a = ctor_toString b \<Longrightarrow> typeHash env a = typeHash env b"
  by (simp add: typeHash_def)

lemma getHash_coherent:
  assumes "\<And>x h. classNameMap st x = Some h \<Longrightarrow> h = typeHash env x"
  shows "\<exists>st'. getHash env c True st = (typeHash env c, st')
          \<and> classNameMap st' = (classNameMap st)(c \<mapsto> typeHash env c)
          \<and> mappings st' = mappings st \<and> heap st' = heap st \<and> log st' = log st"
proof (cases "classNameMap st c")
  case None
  then show ?thesis by (simp add: getHash_fresh)
next
  case (Some h)
  with assms have "h = typeHash env c" by simp
  with Some show ?thesis by (auto simp: getHash_cached fun_upd_idem)
qed

lemma getHashedNames_coherent:
  assumes "\<And>x h. classNameMap st x = Some h \<Longrightarrow> h = typeHash env x"
  shows "\<exists>st'. getHashedNames env a c True st = ((typeHash env a, typeHash env c), st')
          \<and> classNameMap st' = (classNameMap st)(a \<mapsto> typeHash env a, c \<mapsto> typeHash env c)
          \<and> mappings st' = mappings st \<and> heap st' = heap st \<and> log st' = log st"
proof -
  from getHash_coherent[OF assms, where c=a] obtain st1 where
    1: "getHash env a True st = (typeHash env a, st1)"
       "classNameMap st1 = (classNameMap st)(a \<mapsto> typeHash env a)"
       "mappings st1 = mappings st" "heap st1 = heap st" "log st1 = log st"
    by blast
  have "\<And>x h. classNameMap st1 x = Some h \<Longrightarrow> h = typeHash env x"
    using assms 1(2) by (auto split: if_splits)
  from getHash_coherent[OF this, where c=c] obtain st2 where
    2: "getHash env c True st1 = (typeHash env c, st2)"
       "classNameMap st2 = (classNameMap st1)(c \<mapsto> typeHash env c)"
       "mappings st2 = mappings st1" "heap st2 = heap st1" "log st2 = log st1"
    by blast
  show ?thesis using 1 2 by (simp add: getHashedNames_def)
qed

section \<open>The example registry\<close>

lemma typeHash_Person: "typeHash spec_env Person = ''-200005819''"
  by (simp add: typeHash_def spec_env_def Person_def trim_def isWhiteSpace_def hashCode_def
      hashStep_def int32_toString_def showNat.simps)

lemma typeHash_PersonDto: "typeHash spec_env PersonDto = ''-229911872''"
  by (simp add: typeHash_def spec_env_def PersonDto_def trim_def isWhiteSpace_def hashCode_def
      hashStep_def int32_toString_def showNat.simps)

lemma typeHash_Person2: "typeHash spec_env Person2 = ''-200005819''"
  using typeHash_text[of Person2 Person spec_env] typeHash_Person
  by (simp add: Person_def Person2_def)

lemma Person_distinct: "Person \<noteq> PersonDto" "Person \<noteq> Person2" "PersonDto \<noteq> Person2"
  by (simp_all add: Person_def PersonDto_def Person2_def)

lemma spec_env_key: "getMappingKey spec_env = spec_getMappingKey"
  by (simp add: spec_env_def)

lemma registry1_create:
  "createMappingObject spec_env Person PersonDto noOptions init = (Inr 0, registry1)"
  using createMappingObject_init[of spec_env Person PersonDto noOptions]
  by (auto simp: registry1_def)

lemma registry1_fields:
  "mappings registry1 = [(''-200005819->-229911872'', 0)]"
  "classNameMap registry1 = [Person \<mapsto> ''-200005819'', PersonDto \<mapsto> ''-229911872'']"
  "heap registry1 = [personToDto]"
  "log registry1 = []"
proof -
  have i: "\<And>x h. classNameMap init x = Some h \<Longrightarrow> h = typeHash spec_env x"
    by (simp add: init_def)
  from getHashedNames_coherent[OF i, where a=Person and c=PersonDto] obtain s0 where
    g0: "getHashedNames spec_env Person PersonDto True init
           = ((typeHash spec_env Person, typeHash spec_env PersonDto), s0)"
    and c0: "classNameMap s0 = (classNameMap init)(Person \<mapsto> typeHash spec_env Person,
                PersonDto \<mapsto> typeHash spec_env PersonDto)"
    and f0: "mappings s0 = mappings init" "heap s0 = heap init" "log s0 = log init"
    by blast
  note e = createMappingObject_cases[OF g0, of noOptions]
  show "mappings registry1 = [(''-200005819->-229911872'', 0)]"
    unfolding registry1_def e
    by (simp add: init_def typeHash_Person typeHash_PersonDto spec_env_key spec_getMappingKey_def)
  show "classNameMap registry1 = [Person \<mapsto> ''-200005819'', PersonDto \<mapsto> ''-229911872'']"
    unfolding registry1_def e
    by (simp add: init_def c0 typeHash_Person typeHash_PersonDto)
  show "heap registry1 = [personToDto]"
    unfolding registry1_def e
    by (simp add: init_def personToDto_def noOptions_def Person_def PersonDto_def)
  show "log registry1 = []"
    unfolding registry1_def e by (simp add: init_def f0)
qed

lemma registry2_create:
  "createMappingObject spec_env PersonDto Person noOptions registry1 = (Inr 1, registry2)"
proof -
  have g: "getHashedNames spec_env PersonDto Person True registry1
            = ((''-229911872'', ''-200005819''), registry1)"
    by (rule getHashedNames_cached) (simp_all add: registry1_fields Person_distinct)
  show ?thesis
    unfolding registry2_def createMappingObject_cases[OF g]
    by (simp add: registry1_fields spec_env_key spec_getMappingKey_def)
qed

section \<open>The registry: duplicate registration\<close>

text \<open>
  C1. When a mapping for the ordered pair \<open>(src, dest)\<close> is registered,
  \<^verbatim>\<open>createMapping(src, dest, options)\<close> fails with the error "Mapping for source ... and
  destination ... is already existed", and the whole state (the mappings, the cached hashes,
  the mapping objects) is the one before the call.
\<close>

theorem createMappingObject_duplicate:
  "registered env st src dest \<Longrightarrow>
   createMappingObject env src dest options st = (Inl (alreadyExisted src dest), st)"
  by (auto simp: registered_def createMappingObject_def getHashedNames_cached hasMapping_present
      split: option.splits)

theorem createMappingObject_duplicate_witness:
  "registered spec_env registry1 Person PersonDto
   \<and> createMappingObject spec_env Person PersonDto noOptions registry1
     = (Inl (alreadyExisted Person PersonDto), registry1)"
proof -
  obtain st' where s: "createMappingObject spec_env Person PersonDto noOptions init = (Inr 0, st')"
    using createMappingObject_init by blast
  have r: "registered spec_env registry1 Person PersonDto"
    using createMappingObject_registers[OF s] s by (simp add: registry1_def)
  show ?thesis using r createMappingObject_duplicate[OF r, of noOptions] by simp
qed

section \<open>The registry: type identities\<close>

text \<open>
  C2 as stated fails: \<^verbatim>\<open>Person\<close> and \<^verbatim>\<open>Person2\<close> are two class objects with the same
  text. After \<^verbatim>\<open>createMapping(Person, PersonDto)\<close>, \<^verbatim>\<open>createMapping(Person2, PersonDto)\<close>
  throws, and both classes have the same cached identity.
\<close>

theorem createMappingObject_twin_counterexample:
  "Person \<noteq> Person2 \<and> ctor_toString Person = ctor_toString Person2
   \<and> fst (createMappingObject spec_env Person PersonDto noOptions init) = Inr 0
   \<and> fst (createMappingObject spec_env Person2 PersonDto noOptions registry1)
       = Inl (alreadyExisted Person2 PersonDto)
   \<and> classNameMap (snd (createMappingObject spec_env Person2 PersonDto noOptions registry1)) Person2
       = classNameMap (snd (createMappingObject spec_env Person2 PersonDto noOptions registry1)) Person"
proof -
  have i1: "\<And>x h. classNameMap registry1 x = Some h \<Longrightarrow> h = typeHash spec_env x"
    by (auto simp: registry1_fields typeHash_Person typeHash_PersonDto split: if_splits)
  from getHashedNames_coherent[OF i1, where a=Person2 and c=PersonDto] obtain s1 where
    g1: "getHashedNames spec_env Person2 PersonDto True registry1
           = ((typeHash spec_env Person2, typeHash spec_env PersonDto), s1)"
    and c1: "classNameMap s1 = (classNameMap registry1)(Person2 \<mapsto> typeHash spec_env Person2,
                PersonDto \<mapsto> typeHash spec_env PersonDto)"
    by blast
  have n: "map_of (mappings registry1)
             (getMappingKey spec_env (typeHash spec_env Person2) (typeHash spec_env PersonDto))
           = Some 0"
    by (simp add: registry1_fields typeHash_Person2 typeHash_PersonDto spec_env_key
        spec_getMappingKey_def)
  have e: "createMappingObject spec_env Person2 PersonDto noOptions registry1
           = (Inl (alreadyExisted Person2 PersonDto), s1)"
    unfolding createMappingObject_cases[OF g1] using n by simp
  have t: "ctor_toString Person = ctor_toString Person2"
    by (simp add: Person_def Person2_def)
  have k: "classNameMap s1 Person2 = classNameMap s1 Person"
    using Person_distinct
    by (simp add: c1 registry1_fields typeHash_Person2)
  show ?thesis
    using Person_distinct(2) t k by (simp add: e registry1_create)
qed

text \<open>
  C2, as the code has it. The identity of a class is the 32-bit hash of its serialized
  definition, cached under the class object: on a new mapper, registering \<open>(a, c)\<close> and then
  \<open>(b, c)\<close> succeeds for both calls when the keys made of the hashes differ, and both
  classes then have their own hash as identity; when \<open>a\<close> and \<open>b\<close> have the same hash
  (as two classes with the same text do) they share the identity and the second call fails
  with "Mapping for source ... and destination ... is already existed".
\<close>

theorem createMappingObject_identity_by_hash:
  "(getMappingKey env (typeHash env a) (typeHash env c)
      \<noteq> getMappingKey env (typeHash env b) (typeHash env c) \<longrightarrow>
      (\<exists>st1 st2. createMappingObject env a c opts init = (Inr 0, st1)
         \<and> createMappingObject env b c opts' st1 = (Inr 1, st2)
         \<and> classNameMap st2 a = Some (typeHash env a)
         \<and> classNameMap st2 b = Some (typeHash env b)))
   \<and> (typeHash env a = typeHash env b \<longrightarrow>
      (\<exists>st1 st2. createMappingObject env a c opts init = (Inr 0, st1)
         \<and> createMappingObject env b c opts' st1 = (Inl (alreadyExisted b c), st2)
         \<and> classNameMap st2 a = classNameMap st2 b))"
proof -
  have i: "\<And>x h. classNameMap init x = Some h \<Longrightarrow> h = typeHash env x"
    by (simp add: init_def)
  from getHashedNames_coherent[OF i, where a=a and c=c] obtain s0 where
    g0: "getHashedNames env a c True init = ((typeHash env a, typeHash env c), s0)"
    and c0: "classNameMap s0 = (classNameMap init)(a \<mapsto> typeHash env a, c \<mapsto> typeHash env c)"
    and f0: "mappings s0 = mappings init" "heap s0 = heap init"
    by blast
  define st1 where "st1 = snd (createMappingObject env a c opts init)"
  have e1: "createMappingObject env a c opts init = (Inr 0, st1)"
    unfolding st1_def createMappingObject_cases[OF g0] by (simp add: init_def)
  have m1: "mappings st1 = [(getMappingKey env (typeHash env a) (typeHash env c), 0)]"
    and h1: "length (heap st1) = 1"
    and k1: "classNameMap st1 = classNameMap s0"
    unfolding st1_def createMappingObject_cases[OF g0] by (simp_all add: init_def)
  have i1: "\<And>x h. classNameMap st1 x = Some h \<Longrightarrow> h = typeHash env x"
    unfolding k1 c0 by (auto simp: init_def split: if_splits)
  from getHashedNames_coherent[OF i1, where a=b and c=c] obtain s1 where
    g1: "getHashedNames env b c True st1 = ((typeHash env b, typeHash env c), s1)"
    and c1: "classNameMap s1 = (classNameMap st1)(b \<mapsto> typeHash env b, c \<mapsto> typeHash env c)"
    by blast
  have ca: "classNameMap s1 a = Some (typeHash env a)"
  proof -
    have "classNameMap st1 a = Some (typeHash env a)"
      using getHashedNames_create[OF g0] by (simp add: k1)
    then show ?thesis using getHashedNames_mono[OF g1] by blast
  qed
  have cb: "classNameMap s1 b = Some (typeHash env b)"
    using getHashedNames_create[OF g1] by simp
  show ?thesis
  proof (intro conjI impI)
    assume "getMappingKey env (typeHash env a) (typeHash env c)
      \<noteq> getMappingKey env (typeHash env b) (typeHash env c)"
    then have n: "map_of (mappings st1) (getMappingKey env (typeHash env b) (typeHash env c)) = None"
      by (simp add: m1)
    show "\<exists>st1 st2. createMappingObject env a c opts init = (Inr 0, st1)
         \<and> createMappingObject env b c opts' st1 = (Inr 1, st2)
         \<and> classNameMap st2 a = Some (typeHash env a)
         \<and> classNameMap st2 b = Some (typeHash env b)"
      using e1 n h1 ca cb by (auto simp: createMappingObject_cases[OF g1])
  next
    assume "typeHash env a = typeHash env b"
    then have n: "map_of (mappings st1) (getMappingKey env (typeHash env b) (typeHash env c)) = Some 0"
      by (simp add: m1)
    show "\<exists>st1 st2. createMappingObject env a c opts init = (Inr 0, st1)
         \<and> createMappingObject env b c opts' st1 = (Inl (alreadyExisted b c), st2)
         \<and> classNameMap st2 a = classNameMap st2 b"
      using e1 n ca cb \<open>typeHash env a = typeHash env b\<close>
      by (auto simp: createMappingObject_cases[OF g1])
  qed
qed

theorem createMappingObject_identity_by_hash_witness:
  "spec_getMappingKey (typeHash spec_env Person) (typeHash spec_env PersonDto)
     \<noteq> spec_getMappingKey (typeHash spec_env PersonDto) (typeHash spec_env PersonDto)
   \<and> (\<exists>st1 st2. createMappingObject spec_env Person PersonDto noOptions init = (Inr 0, st1)
         \<and> createMappingObject spec_env PersonDto PersonDto noOptions st1 = (Inr 1, st2)
         \<and> classNameMap st2 Person = Some (typeHash spec_env Person)
         \<and> classNameMap st2 PersonDto = Some (typeHash spec_env PersonDto))
   \<and> typeHash spec_env Person = typeHash spec_env Person2
   \<and> (\<exists>st1 st2. createMappingObject spec_env Person PersonDto noOptions init = (Inr 0, st1)
         \<and> createMappingObject spec_env Person2 PersonDto noOptions st1
             = (Inl (alreadyExisted Person2 PersonDto), st2)
         \<and> classNameMap st2 Person = classNameMap st2 Person2)"
proof -
  have k: "getMappingKey spec_env (typeHash spec_env Person) (typeHash spec_env PersonDto)
     \<noteq> getMappingKey spec_env (typeHash spec_env PersonDto) (typeHash spec_env PersonDto)"
    by (simp add: spec_env_key spec_getMappingKey_def typeHash_Person typeHash_PersonDto)
  have t: "typeHash spec_env Person = typeHash spec_env Person2"
    by (simp add: typeHash_Person typeHash_Person2)
  show ?thesis
    using k t
      createMappingObject_identity_by_hash[of spec_env Person PersonDto PersonDto noOptions noOptions]
      createMappingObject_identity_by_hash[of spec_env Person PersonDto Person2 noOptions noOptions]
    by (simp add: spec_env_key)
qed

section \<open>The registry: reverse mappings\<close>

text \<open>
  C10. \<^verbatim>\<open>_createReversedMappingObject\<close> of a forward mapping \<open>m\<close> fails with the error
  "Mapping for source ... and destination ... is already existed" whenever a mapping for the
  pair \<open>(destination m, source m)\<close> is registered, and the state is then the one before the
  call. When it returns a mapping, that pair was not registered before: the new mapping
  object is stored under a key that \<^verbatim>\<open>_mappings\<close> did not have.
\<close>

theorem createReversedMappingObject_duplicate:
  "(registered env st (destination m) (source m) \<longrightarrow>
      createReversedMappingObject env m st
        = (Inl (alreadyExisted (destination m) (source m)), st))
   \<and> (\<forall>r st'. createReversedMappingObject env m st = (Inr r, st') \<longrightarrow>
        \<not> registered env st (destination m) (source m)
        \<and> r = length (heap st) \<and> length (heap st') = Suc r
        \<and> (\<exists>key. map_of (mappings st) key = None \<and> mappings st' = assign (mappings st) key r))"
proof (intro conjI allI impI)
  assume r: "registered env st (destination m) (source m)"
  then show d: "createReversedMappingObject env m st
        = (Inl (alreadyExisted (destination m) (source m)), st)"
    by (auto simp: registered_def createReversedMappingObject_def hasMapping_present
        split: option.splits)
next
  fix r st'
  assume a: "createReversedMappingObject env m st = (Inr r, st')"
  obtain dk sk st1 where g: "getHashedNames env (destination m) (source m) True st = ((dk, sk), st1)"
    by (metis prod.exhaust)
  have n: "map_of (mappings st) (getMappingKey env dk sk) = None"
  proof (rule ccontr)
    assume "map_of (mappings st) (getMappingKey env dk sk) \<noteq> None"
    then have "hasMapping env (destination m) (source m) None None st
         = (Inl (alreadyExisted (destination m) (source m)), st1)"
      using hasMapping_None[OF g] by auto
    with a show False by (simp add: createReversedMappingObject_def)
  qed
  from createReversedMappingObject_success[OF g n] a
  obtain rev where e: "r = length (heap st)"
     "st' = st1\<lparr>heap := heap st @ [rev],
          mappings := assign (mappings st) (getMappingKey env dk sk) (length (heap st))\<rparr>"
    by auto
  show "\<not> registered env st (destination m) (source m)"
  proof
    assume "registered env st (destination m) (source m)"
    then have "createReversedMappingObject env m st
        = (Inl (alreadyExisted (destination m) (source m)), st)"
      by (auto simp: registered_def createReversedMappingObject_def hasMapping_present
        split: option.splits)
    with a show False by simp
  qed
  show "r = length (heap st)" by (rule e)
  show "length (heap st') = Suc r" using e by simp
  show "\<exists>key. map_of (mappings st) key = None \<and> mappings st' = assign (mappings st) key r"
    using n e by auto
qed

theorem createReversedMappingObject_duplicate_witness:
  "registered spec_env registry2 PersonDto Person
   \<and> createReversedMappingObject spec_env personToDto registry2
       = (Inl (alreadyExisted PersonDto Person), registry2)
   \<and> fst (createReversedMappingObject spec_env personToDto registry1) = Inr 1
   \<and> \<not> registered spec_env registry1 PersonDto Person"
proof -
  have sd: "source personToDto = Person" "destination personToDto = PersonDto"
    by (simp_all add: personToDto_def)
  have r: "registered spec_env registry2 PersonDto Person"
    by (rule createMappingObject_registers[OF registry2_create])
  have g: "getHashedNames spec_env (destination personToDto) (source personToDto) True registry1
            = ((''-229911872'', ''-200005819''), registry1)"
    unfolding sd by (rule getHashedNames_cached) (simp_all add: registry1_fields Person_distinct)
  have n: "map_of (mappings registry1) (getMappingKey spec_env ''-229911872'' ''-200005819'') = None"
    by (simp add: registry1_fields spec_env_key spec_getMappingKey_def)
  from createReversedMappingObject_success[OF g n]
  obtain st' where s: "createReversedMappingObject spec_env personToDto registry1 = (Inr 1, st')"
    by (auto simp: registry1_fields)
  show ?thesis
    using r s
      createReversedMappingObject_duplicate[of spec_env registry2 personToDto]
      createReversedMappingObject_duplicate[of spec_env registry1 personToDto]
    by (simp add: sd)
qed

section \<open>Mapping: rules on one property\<close>

lemma heapGet_registry1: "heapGet registry1 0 = Some personToDto"
  by (simp add: heapGet_def registry1_fields)

lemma configured_fields:
  "heap (configured path rule) =
     [personToDto\<lparr>properties := [(path, \<lparr>destinationMemberPath = path, sourceMemberPath = None,
                                          transformation = rule\<rparr>)]\<rparr>]"
  "mappings (configured path rule) = mappings registry1"
  "classNameMap (configured path rule) = classNameMap registry1"
  "log (configured path rule) = []"
  by (simp_all add: configured_def setProperty_def heapGet_registry1 registry1_fields personToDto_def)

lemma heapGet_configured:
  "heapGet (configured path rule) 0 =
     Some (personToDto\<lparr>properties := [(path, \<lparr>destinationMemberPath = path, sourceMemberPath = None,
                                          transformation = rule\<rparr>)]\<rparr>)"
  by (simp add: heapGet_def configured_fields)

lemma spec_env_simps:
  "instantiate spec_env = spec_instantiate"
  "lodash_set spec_env = spec_set"
  "defaultMapActionOptions spec_env = emptyOptions"
  "assertMappingErrors spec_env = spec_assertMappingErrors"
  "get spec_env = spec_get"
  "getSourcePropertyKey spec_env = spec_getSourcePropertyKey"
  "isClass spec_env = typeofObject"
  "isDate spec_env = spec_isDate"
  "isEmpty spec_env = spec_isEmpty"
  "isObjectLike spec_env = typeofObject"
  "isResolver spec_env = spec_isResolver"
  "setMappingPropertyForMapFromMember spec_env = spec_setMappingPropertyForMapFromMember"
  "getProto spec_env = ctor_proto"
  by (simp_all add: spec_env_def)

lemma instanceOf_ada: "instanceOf ada Person"
  by (simp add: instanceOf_def ada_def Person_def)

lemma map_one_rule:
  "map' spec_env (Suc n) ada 0 None None (configured path rule) =
     (case mapProperty_with spec_env (callNested (map' spec_env n)) (Obj PersonDto []) ada 0 None None
             \<lparr>destinationMemberPath = path, sourceMemberPath = None, transformation = rule\<rparr>
             (configured path rule) of
        (Inl e, st1) \<Rightarrow> (Inl e, st1)
      | (Inr d, st1) \<Rightarrow>
          (case spec_assertMappingErrors d [path] of
             Some e \<Rightarrow> (Inl e, st1)
           | None \<Rightarrow> (Inr d, st1)))"
  by (simp add: map_with_def heapGet_configured spec_env_simps emptyOptions_def instanceOf_ada
      personToDto_def runHook_def spec_instantiate_def Let_def fields_def split: prod.splits sum.splits option.splits)

lemma set_age: "spec_set (Obj PersonDto []) ''age'' v = Obj PersonDto [(''age'', v)]"
  by (simp add: spec_set_def)

lemma assert_age: "spec_assertMappingErrors (Obj PersonDto [(''age'', v)]) [''age''] = None"
  by (simp add: spec_assertMappingErrors_def fields_def)

lemma condition_rule:
  assumes "ttype (transformationType rule) = Condition" and "condition rule = Some c"
  shows "mapMember_with env rec d path s sp mref rule st =
     (Inr (lodash_set env d path
             (if predicate c s then get env s Null sp else js_or (defaultValue c) Null)), st)"
  using assms by (simp add: mapMember_with_def setMember_def)

lemma preCondition_skips:
  assumes "preCondition (transformationType (transformation prop)) = Some pc"
    and "\<not> predicate pc s"
  shows "mapProperty_with env rec d s mref dc sc prop st =
     (Inr (lodash_set env d (destinationMemberPath prop) (js_or (defaultValue pc) Null)), st)"
  using assms by (simp add: mapProperty_with_def)

lemma map_conditionRule:
  "fst (map' spec_env (Suc 0) ada 0 None None (configured ''age'' (conditionRule dflt)))
     = Inr (Obj PersonDto [(''age'', js_or dflt Null)])"
proof -
  have c: "ttype (transformationType (conditionRule dflt)) = Condition"
    "condition (conditionRule dflt) = Some \<lparr>predicate = (\<lambda>s. False), defaultValue = dflt\<rparr>"
    "preCondition (transformationType (conditionRule dflt)) = None"
    by (simp_all add: conditionRule_def noRule_def)
  show ?thesis
    unfolding map_one_rule
    by (simp add: mapProperty_with_def c condition_rule[OF c(1,2)] spec_env_simps set_age
        assert_age Let_def)
qed

text \<open>
  C4 at a falsy default. The \<^verbatim>\<open>Condition\<close> branch of \<^verbatim>\<open>_mapMember\<close> ends with
  \<^verbatim>\<open>condition?.defaultValue || null\<close>: with the predicate false and the configured defaults
  \<^verbatim>\<open>0\<close>, \<^verbatim>\<open>false\<close> and the empty string, the destination gets \<^verbatim>\<open>null\<close>, not the
  default; the default \<^verbatim>\<open>5\<close> is kept.
\<close>

theorem condition_falsy_default_is_null:
  "mapMember env n d path s sp mref (conditionRule (Num 0)) st
     = (Inr (lodash_set env d path Null), st)
   \<and> mapMember env n d path s sp mref (conditionRule (Bool False)) st
     = (Inr (lodash_set env d path Null), st)
   \<and> mapMember env n d path s sp mref (conditionRule (Str [])) st
     = (Inr (lodash_set env d path Null), st)
   \<and> mapMember env n d path s sp mref (conditionRule (Num 5)) st
     = (Inr (lodash_set env d path (Num 5)), st)
   \<and> fst (map' spec_env 1 ada 0 None None (configured ''age'' (conditionRule (Num 0))))
     = Inr (Obj PersonDto [(''age'', Null)])
   \<and> fst (map' spec_env 1 ada 0 None None (configured ''age'' (conditionRule (Num 5))))
     = Inr (Obj PersonDto [(''age'', Num 5)])"
proof -
  have c: "\<And>dflt. ttype (transformationType (conditionRule dflt)) = Condition"
    "\<And>dflt. condition (conditionRule dflt)
             = Some \<lparr>predicate = (\<lambda>s. False), defaultValue = dflt\<rparr>"
    by (simp_all add: conditionRule_def noRule_def)
  have m: "\<And>dflt. mapMember env n d path s sp mref (conditionRule dflt) st
     = (Inr (lodash_set env d path (js_or dflt Null)), st)"
    by (simp add: mapMember_def condition_rule[OF c])
  show ?thesis
    by (simp del: map'.simps add: m map_conditionRule js_or_def truthy_def)
qed

lemma map_preConditionRule:
  "fst (map' spec_env (Suc 0) ada 0 None None (configured ''age'' (preConditionRule dflt)))
     = Inr (Obj PersonDto [(''age'', js_or dflt Null)])"
proof -
  have c: "preCondition (transformationType (transformation
              \<lparr>destinationMemberPath = ''age'', sourceMemberPath = None,
               transformation = preConditionRule dflt\<rparr>))
           = Some \<lparr>predicate = (\<lambda>s. False), defaultValue = dflt\<rparr>"
    by (simp add: preConditionRule_def noRule_def)
  have p: "\<not> predicate \<lparr>predicate = (\<lambda>s. False), defaultValue = dflt\<rparr> ada" by simp
  show ?thesis
    unfolding map_one_rule
    by (simp add: preCondition_skips[OF c p] spec_env_simps set_age assert_age)
qed

text \<open>
  C5 at a falsy default. The loop of \<^verbatim>\<open>_map\<close> sets
  \<^verbatim>\<open>preCondition.defaultValue || null\<close> when the predicate is false (lemma
  \<open>preCondition_skips\<close>: the rule itself is not run and the state is untouched): with the
  configured defaults \<^verbatim>\<open>0\<close>, \<^verbatim>\<open>false\<close> and the empty string the destination gets
  \<^verbatim>\<open>null\<close>, not the default; the default \<^verbatim>\<open>5\<close> is kept.
\<close>

theorem preCondition_falsy_default_is_null:
  "mapProperty_with env rec d s mref dc sc
       \<lparr>destinationMemberPath = path, sourceMemberPath = sm,
        transformation = preConditionRule (Num 0)\<rparr> st
     = (Inr (lodash_set env d path Null), st)
   \<and> mapProperty_with env rec d s mref dc sc
       \<lparr>destinationMemberPath = path, sourceMemberPath = sm,
        transformation = preConditionRule (Bool False)\<rparr> st
     = (Inr (lodash_set env d path Null), st)
   \<and> mapProperty_with env rec d s mref dc sc
       \<lparr>destinationMemberPath = path, sourceMemberPath = sm,
        transformation = preConditionRule (Str [])\<rparr> st
     = (Inr (lodash_set env d path Null), st)
   \<and> mapProperty_with env rec d s mref dc sc
       \<lparr>destinationMemberPath = path, sourceMemberPath = sm,
        transformation = preConditionRule (Num 5)\<rparr> st
     = (Inr (lodash_set env d path (Num 5)), st)
   \<and> fst (map' spec_env 1 ada 0 None None (configured ''age'' (preConditionRule (Num 0))))
     = Inr (Obj PersonDto [(''age'', Null)])
   \<and> fst (map' spec_env 1 ada 0 None None (configured ''age'' (preConditionRule (Num 5))))
     = Inr (Obj PersonDto [(''age'', Num 5)])"
proof -
  have m: "\<And>dflt. mapProperty_with env rec d s mref dc sc
       \<lparr>destinationMemberPath = path, sourceMemberPath = sm,
        transformation = preConditionRule dflt\<rparr> st
     = (Inr (lodash_set env d path (js_or dflt Null)), st)"
    by (simp add: mapProperty_with_def preConditionRule_def noRule_def)
  show ?thesis
    by (simp del: map'.simps add: m map_preConditionRule js_or_def truthy_def)
qed

text \<open>
  C7. Executing an \<^verbatim>\<open>Ignore\<close> rule sets the destination path to \<^verbatim>\<open>null\<close> and does
  nothing else, whatever the source object, the mapping and the state are: as a call of
  \<^verbatim>\<open>_mapMember\<close>, and as a turn of the loop of \<^verbatim>\<open>_map\<close> for a rule that has no
  \<^verbatim>\<open>preCondition\<close> or one that holds (a false one skips the rule).
\<close>

theorem ignore_sets_null:
  assumes "ttype (transformationType rule) = Ignore"
  shows "mapMember env n d path s sp mref rule st = (Inr (lodash_set env d path Null), st)
     \<and> ((case preCondition (transformationType rule) of
            None \<Rightarrow> True
          | Some pc \<Rightarrow> predicate pc s) \<longrightarrow>
         mapProperty_with env (map' env n) d s mref dc sc
           \<lparr>destinationMemberPath = path, sourceMemberPath = sm, transformation = rule\<rparr> st
         = (Inr (lodash_set env d path Null), st))"
  using assms
  by (auto simp: mapMember_def mapMember_with_def setMember_def mapProperty_with_def
      split: option.splits)

theorem ignore_sets_null_witness:
  "ttype (transformationType ignoreRule) = Ignore
   \<and> mapMember spec_env 0 (Obj PersonDto []) ''age'' ada ''age'' 0 ignoreRule registry1
       = (Inr (Obj PersonDto [(''age'', Null)]), registry1)
   \<and> mapProperty_with spec_env (map' spec_env 0) (Obj PersonDto []) ada 0 None None
        \<lparr>destinationMemberPath = ''age'', sourceMemberPath = None, transformation = ignoreRule\<rparr>
        registry1
       = (Inr (Obj PersonDto [(''age'', Null)]), registry1)"
proof -
  have t: "ttype (transformationType ignoreRule) = Ignore"
    "preCondition (transformationType ignoreRule) = None"
    by (simp_all add: ignoreRule_def noRule_def)
  show ?thesis
    using t ignore_sets_null[OF t(1), of spec_env 0 "Obj PersonDto []" "''age''" ada "''age''" 0
        registry1 None None None]
    by (simp add: spec_env_simps set_age)
qed

text \<open>
  C9. The promise of \<^verbatim>\<open>_mapAsync\<close>, when it is settled on a state, gives what \<^verbatim>\<open>_map\<close>
  gives on that state for the same arguments, the results and the errors alike, and leaves
  the same state; and so does the promise of \<^verbatim>\<open>_mapArrayAsync\<close> with \<^verbatim>\<open>_mapArray\<close>.
\<close>

lemma map_with_defaults:
  "map_with env rec s mref
     (Some (case option' of None \<Rightarrow> defaultMapActionOptions env | Some opt \<Rightarrow> opt))
     (Some (case isArrayMap' of None \<Rightarrow> False | Some b \<Rightarrow> b)) st
   = map_with env rec s mref option' isArrayMap' st"
  by (simp add: map_with_def)

lemma map'_defaults:
  "map' env n s mref
     (Some (case option' of None \<Rightarrow> defaultMapActionOptions env | Some opt \<Rightarrow> opt))
     (Some (case isArrayMap' of None \<Rightarrow> False | Some b \<Rightarrow> b)) st
   = map' env n s mref option' isArrayMap' st"
  by (cases n) (simp_all add: map_with_defaults)

lemma mapArray_defaults:
  "mapArray env n xs mref
     (Some (case option' of None \<Rightarrow> defaultMapActionOptions env | Some opt \<Rightarrow> opt)) st
   = mapArray env n xs mref option' st"
  by (simp add: mapArray_def mapArray_with_def)

theorem async_same_as_sync:
  "settle (mapAsync env n sourceObj mref option' isArrayMap') st
     = map' env n sourceObj mref option' isArrayMap' st
   \<and> settle (mapArrayAsync env n sourceArray mref option') st
     = mapArray env n sourceArray mref option' st"
  by (simp add: mapAsync_def mapArrayAsync_def Let_def map'_defaults mapArray_defaults)

theorem async_same_as_sync_witness:
  "settle (mapAsync spec_env 1 ada 0 None None) (configured ''age'' ignoreRule)
     = map' spec_env 1 ada 0 None None (configured ''age'' ignoreRule)
   \<and> fst (settle (mapAsync spec_env 1 ada 0 None None) (configured ''age'' ignoreRule))
     = Inr (Obj PersonDto [(''age'', Null)])
   \<and> settle (mapArrayAsync spec_env 1 [ada] 0 None) (configured ''age'' ignoreRule)
     = mapArray spec_env 1 [ada] 0 None (configured ''age'' ignoreRule)
   \<and> fst (settle (mapAsync spec_env 0 ada 0 None None) (configured ''age'' ignoreRule))
     = Inl OutOfFuel"
proof -
  have t: "ttype (transformationType ignoreRule) = Ignore"
    "preCondition (transformationType ignoreRule) = None"
    by (simp_all add: ignoreRule_def noRule_def)
  have m: "fst (map' spec_env 1 ada 0 None None (configured ''age'' ignoreRule))
     = Inr (Obj PersonDto [(''age'', Null)])"
    unfolding One_nat_def map_one_rule
    by (simp add: mapProperty_with_def mapMember_with_def setMember_def t spec_env_simps
        set_age assert_age Let_def)
  show ?thesis
    using m async_same_as_sync[of spec_env 1 ada 0 None None "configured ''age'' ignoreRule" "[ada]"]
      async_same_as_sync[of spec_env 0 ada 0 None None "configured ''age'' ignoreRule" "[ada]"]
    by (simp del: map'.simps(2))
qed

section \<open>Mapping: arrays\<close>

lemma instanceOf_withFriends: "instanceOf (withFriends xs) Person"
  by (simp add: instanceOf_def withFriends_def Person_def)

lemma map_one_rule_src:
  assumes "instanceOf s Person"
  shows "map' spec_env (Suc n) s 0 None None (configured path rule) =
     (case mapProperty_with spec_env (callNested (map' spec_env n)) (Obj PersonDto []) s 0 None None
             \<lparr>destinationMemberPath = path, sourceMemberPath = None, transformation = rule\<rparr>
             (configured path rule) of
        (Inl e, st1) \<Rightarrow> (Inl e, st1)
      | (Inr d, st1) \<Rightarrow>
          (case spec_assertMappingErrors d [path] of
             Some e \<Rightarrow> (Inl e, st1)
           | None \<Rightarrow> (Inr d, st1)))"
  using assms
  by (simp add: map_with_def heapGet_configured spec_env_simps emptyOptions_def
      personToDto_def runHook_def spec_instantiate_def Let_def fields_def
      split: prod.splits sum.splits option.splits)

lemma ArrayCtor_distinct: "ArrayCtor \<noteq> Person" "ArrayCtor \<noteq> PersonDto"
  "Person \<noteq> ArrayCtor" "PersonDto \<noteq> ArrayCtor" "ctor_proto ArrayCtor = None"
  by (simp_all add: ArrayCtor_def Person_def PersonDto_def)

lemma builtin_not_cached:
  "classNameMap (configured path rule) ArrayCtor = None"
  by (simp add: configured_fields registry1_fields ArrayCtor_distinct)

text \<open>The lookup of the \<^verbatim>\<open>MapWith\<close> branch for an array: \<^verbatim>\<open>_source.constructor\<close> is
  \<^verbatim>\<open>Array\<close>, which has no cached hash, so the key is not one of \<^verbatim>\<open>_mappings\<close>.\<close>

lemma lookup_Array:
  "getMappingForDestination spec_env PersonDto ArrayCtor False (configured path rule)
     = (Inl mappingNotFound2, configured path rule)"
  by (simp add: getMappingForDestination_def getHashedNames_def getHash_def builtin_not_cached
      spec_env_simps ArrayCtor_distinct configured_fields registry1_fields Person_distinct
      spec_env_key spec_getMappingKey_def Let_def)

lemma mapWith_array_fails:
  "mapMember_with spec_env rec d ''friends'' (withFriends xs) sp 0 friendsRule
      (configured ''friends'' friendsRule)
     = (Inl mappingNotFound2, configured ''friends'' friendsRule)"
  by (simp add: mapMember_with_def mapWithMember_def friendsRule_def noRule_def withFriends_def
      member_def fields_def spec_env_simps spec_isEmpty_def typeofObject_def constructorOf_def
      lookup_Array[unfolded friendsRule_def noRule_def, simplified])

text \<open>The \<^verbatim>\<open>MapWith\<close> branch on an array, for every environment that takes the array for a
  class instance and not for an empty value: the mapping is looked up for the class
  \<^verbatim>\<open>Array\<close> first, and an error of that lookup ends the rule whatever the elements are.\<close>

lemma mapWith_array_lookup_first:
  assumes "ttype (transformationType rule) = MapWith"
    and "mapWith rule = Some mw" and "mw_fromValue mw s = Arr xs"
    and "\<not> isEmpty env (Arr xs)" and "isClass env (Arr xs)"
    and "getMappingForDestination env (mw_destination mw) ArrayCtor False st = (Inl e, st1)"
  shows "mapMember_with env rec d path s sp mref rule st = (Inl e, st1)"
  using assms
  by (simp add: mapMember_with_def mapWithMember_def constructorOf_def)

text \<open>The array branch of the rule of a property with no transformation of its own, for
  every environment: the first element decides between the empty array, a copy, and the
  mapping of every element through the mapping found from the first element.\<close>

lemma mapInitialize_array:
  assumes "ttype (transformationType rule) = MapInitialize"
    and "mapFrom rule = Some (Selector f)" and "f s = Arr xs"
    and "isObjectLike env (Arr xs)" and "\<not> isDate env (Arr xs)"
  shows "mapMember_with env rec d path s sp mref rule st =
     (if isEmpty env (first xs) then (Inr (lodash_set env d path (Arr [])), st)
      else if \<not> isObjectLike env (first xs) then (Inr (lodash_set env d path (Arr xs)), st)
      else
        (case getMappingForNestedKey env (first xs) st of
           (Inl e, st1) \<Rightarrow> (Inl e, st1)
         | (Inr nestedMapping, st1) \<Rightarrow>
             (case mapArray_with env rec xs nestedMapping None st1 of
                (Inl e, st2) \<Rightarrow> (Inl e, st2)
              | (Inr a, st2) \<Rightarrow> (Inr (lodash_set env d path a), st2))))"
  using assms
  by (simp add: mapMember_with_def mapInitializeMember_def setMember_def isArray_def
      elements_def split: prod.splits sum.splits)

text \<open>
  C6 on the \<^verbatim>\<open>MapWith\<close> branch. The branch looks the nested mapping up from
  \<^verbatim>\<open>_source.constructor\<close> before it looks at the array, and for an array that is
  \<^verbatim>\<open>Array\<close>: with \<^verbatim>\<open>Person -> PersonDto\<close> registered and the rule
  \<^verbatim>\<open>mapWith(PersonDto, s => s.friends)\<close>, the arrays \<^verbatim>\<open>[null]\<close>, \<^verbatim>\<open>[]\<close> and
  \<^verbatim>\<open>[ada]\<close> all end in "Mapping not found", where the claim has the empty array, the empty
  array and the mapped elements. The rule of a property with no transformation, which finds
  the mapping from the first element after the test of it, gives the empty array for
  \<^verbatim>\<open>[null]\<close>.
\<close>

theorem mapWith_array_not_found:
  "fst (map' spec_env 2 (withFriends [Null]) 0 None None (configured ''friends'' friendsRule))
     = Inl mappingNotFound2
   \<and> fst (map' spec_env 2 (withFriends []) 0 None None (configured ''friends'' friendsRule))
     = Inl mappingNotFound2
   \<and> fst (map' spec_env 2 (withFriends [ada]) 0 None None (configured ''friends'' friendsRule))
     = Inl mappingNotFound2
   \<and> fst (map' spec_env 2 (withFriends [Null]) 0 None None
            (configured ''friends'' friendsInitialize))
     = Inr (Obj PersonDto [(''friends'', Arr [])])"
proof -
  have p: "preCondition (transformationType friendsRule) = None"
    by (simp add: friendsRule_def noRule_def)
  have a: "\<And>xs. fst (map' spec_env (Suc (Suc 0)) (withFriends xs) 0 None None
                      (configured ''friends'' friendsRule)) = Inl mappingNotFound2"
    unfolding map_one_rule_src[OF instanceOf_withFriends]
    by (simp add: mapProperty_with_def spec_env_simps spec_getSourcePropertyKey_def
        mapWith_array_fails p)
  have b: "fst (map' spec_env (Suc (Suc 0)) (withFriends [Null]) 0 None None
            (configured ''friends'' friendsInitialize))
     = Inr (Obj PersonDto [(''friends'', Arr [])])"
    unfolding map_one_rule_src[OF instanceOf_withFriends]
    by (simp add: mapProperty_with_def mapMember_with_def mapInitializeMember_def
        friendsInitialize_def noRule_def spec_env_simps spec_getSourcePropertyKey_def
        withFriends_def member_def fields_def typeofObject_def spec_isDate_def isArray_def
        elements_def first_def spec_isEmpty_def setMember_def spec_set_def
        spec_assertMappingErrors_def Let_def)
  show ?thesis using a b by (simp add: numeral_2_eq_2 del: map'.simps)
qed

section \<open>Mapping: what a run does to the state\<close>











lemma setMember_state [simp]: "snd (setMember env d path v st) = st"
  by (simp add: setMember_def)












section \<open>Mapping: the hooks\<close>
















section \<open>Mapping: the mapping objects\<close>



lemma sameButProperties_fields:
  assumes "sameButProperties m m'"
  shows "source m' = source m" and "destination m' = destination m"
    and "sourceKey m' = sourceKey m" and "destinationKey m' = destinationKey m"
    and "sourceMemberNamingConvention m' = sourceMemberNamingConvention m"
    and "destinationMemberNamingConvention m' = destinationMemberNamingConvention m"
    and "beforeMapAction m' = beforeMapAction m" and "afterMapAction m' = afterMapAction m"
    and "baseSource m' = baseSource m" and "baseDestination m' = baseDestination m"
proof -
  let ?u = "m'\<lparr>properties := properties m\<rparr>"
  from assms have e: "?u = m" by (simp add: sameButProperties_def)
  have "source ?u = source m'" "destination ?u = destination m'"
    "sourceKey ?u = sourceKey m'" "destinationKey ?u = destinationKey m'"
    "sourceMemberNamingConvention ?u = sourceMemberNamingConvention m'"
    "destinationMemberNamingConvention ?u = destinationMemberNamingConvention m'"
    "beforeMapAction ?u = beforeMapAction m'" "afterMapAction ?u = afterMapAction m'"
    "baseSource ?u = baseSource m'" "baseDestination ?u = baseDestination m'"
    by simp_all
  then show "source m' = source m" and "destination m' = destination m"
    and "sourceKey m' = sourceKey m" and "destinationKey m' = destinationKey m"
    and "sourceMemberNamingConvention m' = sourceMemberNamingConvention m"
    and "destinationMemberNamingConvention m' = destinationMemberNamingConvention m"
    and "beforeMapAction m' = beforeMapAction m" and "afterMapAction m' = afterMapAction m"
    and "baseSource m' = baseSource m" and "baseDestination m' = baseDestination m"
    unfolding e by simp_all
qed






























end
